theory Spec2Isabelle
  imports Complex_Main "HOL-Library.Word"
begin

section \<open>JavaScript values and the external libraries\<close>

text \<open>
  The contents of a \<^verbatim>\<open>Uint8Array\<close> are a list of bytes. A JavaScript number that carries a quality, a
  scale or a size in megabytes is a real: finite values with exact arithmetic (rounding
  to IEEE doubles, NaN and the infinities are outside the model). Lengths and counters
  are naturals.
\<close>

type_synonym bytes = "8 word list"

text \<open>
  A thrown value: an \<^verbatim>\<open>Error\<close> object with its message, or any other value with the
  text \<^verbatim>\<open>String(v)\<close> gives for it. A promise that rejects and a function that throws
  are both the left injection of a sum.
\<close>

datatype thrown = Error (message: string) | NonError string

text \<open>\<^verbatim>\<open>e instanceof Error ? e.message : fallback\<close>\<close>

fun message_or :: "thrown \<Rightarrow> string \<Rightarrow> string" where
  "message_or (Error m) fallback = m"
| "message_or (NonError v) fallback = fallback"

text \<open>The progress events of \<^verbatim>\<open>compress-utils.ts\<close>.\<close>

datatype stage = Rendering | Compressing | Building

record CompressionProgress =
  stage :: stage
  current :: nat
  total :: nat
  currentSizeMB :: "real option"

text \<open>
  The drawing surface: its pixel size and what has been drawn on it (opaque).
\<close>

record canvas =
  cv_width :: int
  cv_height :: int
  cv_drawn :: "nat option"

text \<open>
  A page of pdf.js: \<^verbatim>\<open>page.getViewport({scale})\<close> gives the viewport's width and height,
  \<^verbatim>\<open>page.render({canvasContext, viewport}).promise\<close> draws on the canvas or rejects.
\<close>

record PDFPageProxy =
  getViewport :: "real \<Rightarrow> real \<times> real"
  render :: "canvas \<Rightarrow> real \<times> real \<Rightarrow> thrown + canvas"

record PDFDocumentProxy =
  numPages :: nat
  getPage :: "nat \<Rightarrow> thrown + PDFPageProxy"

text \<open>
  A document of pdf-lib is the list of its pages. A page has a size in points and a
  list of drawing operations: an embedded image drawn at \<open>x\<close>, \<open>y\<close> with a width and a
  height, or content copied from a loaded file (opaque).
\<close>

datatype PDFImage = Jpg bytes | Png bytes

datatype page_op = DrawImage PDFImage real real real real | SourceContent nat

record PDFPage =
  pg_width :: real
  pg_height :: real
  pg_ops :: "page_op list"

type_synonym PDFDocument = "PDFPage list"

text \<open>
  The browser and the two libraries, as functions of their arguments: what
  \<^verbatim>\<open>pdfjs.getDocument({data}).promise\<close> makes of the bytes it receives, whether \<^verbatim>\<open>canvas.getContext("2d")\<close> gives a
  context, \<^verbatim>\<open>canvas.toDataURL("image/jpeg", quality)\<close>, \<^verbatim>\<open>atob\<close>,
  \<^verbatim>\<open>PDFDocument.embedJpg\<close>, \<^verbatim>\<open>embedPng\<close>, \<^verbatim>\<open>PDFDocument.load\<close> and \<^verbatim>\<open>save\<close>.
\<close>

record env =
  getDocument :: "bytes \<Rightarrow> thrown + PDFDocumentProxy"
  canvas_context :: bool
  toDataURL :: "canvas \<Rightarrow> real \<Rightarrow> string"
  atob :: "string \<Rightarrow> thrown + string"
  embedJpg :: "bytes \<Rightarrow> thrown + PDFImage"
  embedPng :: "bytes \<Rightarrow> thrown + PDFImage"
  load :: "bytes \<Rightarrow> thrown + PDFDocument"
  save :: "PDFDocument \<Rightarrow> bytes"

subsection \<open>Typed arrays as objects\<close>

text \<open>
  A \<^verbatim>\<open>Uint8Array\<close> that is passed from function to function is an object: the variables
  and the state of the program hold a reference to it, and a library that is handed the
  reference can change the array behind it. The heap gives every reference the bytes of
  its array and whether the array spans its whole \<^verbatim>\<open>ArrayBuffer\<close>
  (\<^verbatim>\<open>byteLength === buffer.byteLength\<close>); \<open>fresh\<close> is the first reference not yet in use.
  An array that is created and used up inside one function, as the image bytes of a
  page are, is written as its bytes.
\<close>

type_synonym ref = nat

record Uint8Array =
  elements :: bytes
  whole_buffer :: bool

record heap =
  arrays :: "ref \<Rightarrow> Uint8Array"
  fresh :: ref

definition bytes_at :: "heap \<Rightarrow> ref \<Rightarrow> bytes" where
  "bytes_at h r = elements (arrays h r)"

text \<open>
  An array that a library creates and returns, as \<^verbatim>\<open>save()\<close> of pdf-lib does: a new
  object that spans its own buffer.
\<close>

definition new_array :: "heap \<Rightarrow> bytes \<Rightarrow> ref \<times> heap" where
  "new_array h b =
     (fresh h,
      h\<lparr>arrays := (arrays h)(fresh h := \<lparr>elements = b, whole_buffer = True\<rparr>),
        fresh := fresh h + 1\<rparr>)"

text \<open>
  What \<^verbatim>\<open>pdfjs.getDocument({ data })\<close> does to the array it is given: an array that spans
  its whole buffer is used as it is and its buffer is transferred to the worker, so the
  caller's array has length 0 from then on; any other array is copied first and stays
  as it was.
\<close>

definition take_buffer :: "heap \<Rightarrow> ref \<Rightarrow> heap" where
  "take_buffer h r =
     (if whole_buffer (arrays h r)
      then h\<lparr>arrays := (arrays h)(r := \<lparr>elements = [], whole_buffer = True\<rparr>)\<rparr>
      else h)"

section \<open>Strings\<close>

text \<open>\<^verbatim>\<open>s.split(c)\<close> for a one-character separator: never the empty list.\<close>

fun split_on :: "char \<Rightarrow> string \<Rightarrow> string list" where
  "split_on c [] = [[]]"
| "split_on c (x # xs) =
     (if x = c then [] # split_on c xs
      else (case split_on c xs of
              [] \<Rightarrow> [[x]]
            | p # ps \<Rightarrow> (x # p) # ps))"

text \<open>\<^verbatim>\<open>xs[i]\<close>, \<^verbatim>\<open>undefined\<close> out of range.\<close>

fun index_opt :: "'a list \<Rightarrow> nat \<Rightarrow> 'a option" where
  "index_opt [] i = None"
| "index_opt (x # xs) 0 = Some x"
| "index_opt (x # xs) (Suc i) = index_opt xs i"

text \<open>The decimal digits of a number, as a template literal prints it.\<close>

definition digit_char :: "nat \<Rightarrow> char" where
  "digit_char d = char_of (48 + d)"

fun show_nat :: "nat \<Rightarrow> string" where
  "show_nat n = (if n < 10 then [digit_char n] else show_nat (n div 10) @ [digit_char (n mod 10)])"

declare show_nat.simps [simp del]

text \<open>\<^verbatim>\<open>s.endsWith(suffix)\<close>, \<^verbatim>\<open>s.includes(part)\<close> and \<^verbatim>\<open>s.toLowerCase()\<close> on ASCII.\<close>

definition endsWith :: "string \<Rightarrow> string \<Rightarrow> bool" where
  "endsWith s suffix =
     (length suffix \<le> length s \<and> drop (length s - length suffix) s = suffix)"

fun includes_str :: "string \<Rightarrow> string \<Rightarrow> bool" where
  "includes_str [] part = (part = [])"
| "includes_str (x # xs) part = (take (length part) (x # xs) = part \<or> includes_str xs part)"

definition lower_char :: "char \<Rightarrow> char" where
  "lower_char c =
     (let n = (of_char c :: nat) in if 65 \<le> n \<and> n \<le> 90 then char_of (n + 32) else c)"

definition toLowerCase :: "string \<Rightarrow> string" where
  "toLowerCase s = map lower_char s"

definition newline :: string where
  "newline = [CHR 0x0A]"

definition dquote :: string where
  "dquote = [CHR 0x22]"

section \<open>compress-utils.ts\<close>

subsection \<open>renderPageToImage\<close>

text \<open>
  The canvas element the function creates: its width and height are the floors of the
  viewport's. These are the pixel dimensions of the image that \<^verbatim>\<open>toDataURL\<close> encodes.
\<close>

definition createCanvas :: "real \<times> real \<Rightarrow> canvas" where
  "createCanvas viewport =
     \<lparr>cv_width = \<lfloor>fst viewport\<rfloor>, cv_height = \<lfloor>snd viewport\<rfloor>, cv_drawn = None\<rparr>"

definition renderPageToImage :: "env \<Rightarrow> PDFPageProxy \<Rightarrow> real \<Rightarrow> real \<Rightarrow> thrown + bytes" where
  "renderPageToImage E page scale quality =
     (let viewport = getViewport page scale in
      if \<not> canvas_context E then Inl (Error ''Failed to get canvas 2d context'')
      else
        let canvas = createCanvas viewport in
        case render page canvas viewport of
          Inl e \<Rightarrow> Inl e
        | Inr drawn \<Rightarrow>
            let dataUrl = toDataURL E drawn quality in
            if dataUrl = [] \<or> dataUrl = ''data:,'' then Inl (Error ''Canvas produced empty image'')
            else
              (case index_opt (split_on CHR '','' dataUrl) 1 of
                 None \<Rightarrow> Inl (Error ''Failed to extract base64 from canvas'')
               | Some base64 \<Rightarrow>
                   if base64 = [] then Inl (Error ''Failed to extract base64 from canvas'')
                   else
                     (case atob E base64 of
                        Inl e \<Rightarrow> Inl e
                      | Inr binaryString \<Rightarrow> Inr (map of_char binaryString))))"

subsection \<open>compressPdf\<close>

text \<open>
  The body of the \<^verbatim>\<open>try\<close> block for page \<open>i\<close>: the page that is added to the new
  document, or what was thrown.
\<close>

definition process_page :: "env \<Rightarrow> PDFDocumentProxy \<Rightarrow> real \<Rightarrow> real \<Rightarrow> nat \<Rightarrow> thrown + PDFPage" where
  "process_page E pdfDoc quality scale i =
     (case getPage pdfDoc i of
        Inl e \<Rightarrow> Inl e
      | Inr page \<Rightarrow>
          let viewport = getViewport page 1 in
          (case renderPageToImage E page scale quality of
             Inl e \<Rightarrow> Inl e
           | Inr imageBytes \<Rightarrow>
               if length imageBytes = 0
               then Inl (Error (''Page '' @ show_nat i @ '' rendered as empty image''))
               else
                 (case embedJpg E imageBytes of
                    Inl e \<Rightarrow> Inl e
                  | Inr img \<Rightarrow>
                      let pageWidth = fst viewport * 0.75;
                          pageHeight = snd viewport * 0.75
                      in Inr \<lparr>pg_width = pageWidth, pg_height = pageHeight,
                               pg_ops = [DrawImage img 0 0 pageWidth pageHeight]\<rparr>)))"

definition rendering_event :: "nat \<Rightarrow> nat \<Rightarrow> CompressionProgress" where
  "rendering_event i n = \<lparr>stage = Rendering, current = i, total = n, currentSizeMB = None\<rparr>"

definition building_event :: "nat \<Rightarrow> CompressionProgress" where
  "building_event n = \<lparr>stage = Building, current = n, total = n, currentSizeMB = None\<rparr>"

text \<open>
  The loop \<^verbatim>\<open>for (let i = 1; i <= numPages; i++)\<close>: the events sent to \<^verbatim>\<open>onProgress\<close>
  and the new document, or the annotated error of the \<^verbatim>\<open>catch\<close> block.
\<close>

function compressPdf_pages ::
  "env \<Rightarrow> PDFDocumentProxy \<Rightarrow> real \<Rightarrow> real \<Rightarrow> nat \<Rightarrow> PDFDocument
    \<Rightarrow> CompressionProgress list \<times> (thrown + PDFDocument)" where
  "compressPdf_pages E pdfDoc quality scale i newPdf =
     (if i \<le> numPages pdfDoc then
        (case process_page E pdfDoc quality scale i of
           Inl pageError \<Rightarrow>
             ([rendering_event i (numPages pdfDoc)],
              Inl (Error (''Failed to process page '' @ show_nat i @ '': '' @
                          message_or pageError ''Unknown error'')))
         | Inr newPage \<Rightarrow>
             (case compressPdf_pages E pdfDoc quality scale (i + 1) (newPdf @ [newPage]) of
                (evs, r) \<Rightarrow> (rendering_event i (numPages pdfDoc) # evs, r)))
      else ([], Inr newPdf))"
  by pat_completeness auto
termination
  by (relation "measure (\<lambda>(E, pdfDoc, quality, scale, i, newPdf). numPages pdfDoc + 1 - i)") auto

declare compressPdf_pages.simps [simp del]

text \<open>
  \<^verbatim>\<open>await pdfjs.getDocument({ data: pdfData }).promise\<close>: what pdf.js makes of the bytes
  that the array holds at the call, and the heap once it has taken the array.
\<close>

definition pdfjs_getDocument :: "env \<Rightarrow> heap \<Rightarrow> ref \<Rightarrow> (thrown + PDFDocumentProxy) \<times> heap" where
  "pdfjs_getDocument E h pdfData = (getDocument E (bytes_at h pdfData), take_buffer h pdfData)"

text \<open>
  The function: the events, the reference of the new array that \<^verbatim>\<open>newPdf.save()\<close>
  returns or what was thrown, and the heap afterwards.
\<close>

definition compressPdf ::
  "env \<Rightarrow> heap \<Rightarrow> ref \<Rightarrow> real \<Rightarrow> real
    \<Rightarrow> CompressionProgress list \<times> (thrown + ref) \<times> heap" where
  "compressPdf E h pdfData quality scale =
     (case pdfjs_getDocument E h pdfData of
        (Inl e, h') \<Rightarrow> ([], Inl e, h')
      | (Inr pdfDoc, h') \<Rightarrow>
          (case compressPdf_pages E pdfDoc quality scale 1 [] of
             (evs, Inl e) \<Rightarrow> (evs, Inl e, h')
           | (evs, Inr newPdf) \<Rightarrow>
               (case new_array h' (save E newPdf) of
                  (result, h'') \<Rightarrow>
                    (evs @ [building_event (numPages pdfDoc)], Inr result, h''))))"

subsection \<open>compressToTargetSize\<close>

text \<open>
  What a call of \<^verbatim>\<open>compressToTargetSize\<close> did: the arguments of every call of
  \<^verbatim>\<open>compressPdf\<close> it made, in order (the bytes that the array \<^verbatim>\<open>pdfData\<close> held when it
  was passed, quality, scale), the events it sent to \<^verbatim>\<open>onProgress\<close>, the array it
  returned or what it threw, and the heap afterwards.
\<close>

record search_run =
  calls :: "(bytes \<times> real \<times> real) list"
  events :: "CompressionProgress list"
  outcome :: "thrown + ref"
  heap_after :: heap

definition maxAttempts :: nat where
  "maxAttempts = 5"

definition MB :: real where
  "MB = 1024 * 1024"

text \<open>The band table of lines 168 to 193.\<close>

definition initial_settings :: "real \<Rightarrow> real \<times> real" where
  "initial_settings ratio =
     (if ratio < 0.1 then (0.2, 0.4)
      else if ratio < 0.2 then (0.3, 0.5)
      else if ratio < 0.3 then (0.4, 0.6)
      else if ratio < 0.5 then (0.5, 0.75)
      else (0.7, 0.9))"

text \<open>
  The callback handed to \<^verbatim>\<open>compressPdf\<close>: it copies the event and attaches
  \<^verbatim>\<open>result.length\<close>, read when the event is sent. \<^verbatim>\<open>result\<close> is then still the array of
  the previous attempt, and on the first attempt the array \<^verbatim>\<open>pdfData\<close> itself. Every
  event of a pass is sent after \<^verbatim>\<open>getDocument\<close> has returned and before \<^verbatim>\<open>save\<close>, so
  the heap it reads is the one that \<^verbatim>\<open>getDocument\<close> leaves.
\<close>

definition attach_size :: "heap \<Rightarrow> ref \<Rightarrow> CompressionProgress \<Rightarrow> CompressionProgress" where
  "attach_size h result p = p\<lparr>currentSizeMB := Some (real (length (bytes_at h result)) / MB)\<rparr>"

definition compressing_event :: "nat \<Rightarrow> real \<Rightarrow> CompressionProgress" where
  "compressing_event attempts resultSizeMB =
     \<lparr>stage = Compressing, current = attempts, total = maxAttempts,
      currentSizeMB = Some resultSizeMB\<rparr>"

text \<open>
  The loop \<^verbatim>\<open>while (attempts < maxAttempts)\<close>. Every attempt passes the same reference
  \<^verbatim>\<open>pdfData\<close>, in the heap that the attempts before it have left. An error of
  \<^verbatim>\<open>compressPdf\<close> leaves the function, which has no \<^verbatim>\<open>try\<close>. \<open>then_run\<close> puts the call
  and the events of one attempt before those of the attempts that follow it.
\<close>

definition then_run :: "(bytes \<times> real \<times> real) \<Rightarrow> CompressionProgress list \<Rightarrow> search_run \<Rightarrow> search_run" where
  "then_run c evs r = r\<lparr>calls := c # calls r, events := evs @ events r\<rparr>"

function compressToTargetSize_loop ::
  "env \<Rightarrow> heap \<Rightarrow> ref \<Rightarrow> real \<Rightarrow> nat \<Rightarrow> real \<Rightarrow> real \<Rightarrow> ref \<Rightarrow> search_run" where
  "compressToTargetSize_loop E h pdfData targetBytes attempts quality scale result =
     (if attempts < maxAttempts then
        (case compressPdf E h pdfData quality scale of
           (evs, Inl e, h') \<Rightarrow>
             \<lparr>calls = [(bytes_at h pdfData, quality, scale)],
              events = map (attach_size (take_buffer h pdfData) result) evs,
              outcome = Inl e, heap_after = h'\<rparr>
         | (evs, Inr result', h') \<Rightarrow>
             (let resultSizeMB = real (length (bytes_at h' result')) / MB;
                  evs' = map (attach_size (take_buffer h pdfData) result) evs
                           @ [compressing_event (attempts + 1) resultSizeMB]
              in if real (length (bytes_at h' result')) \<le> targetBytes
                 then \<lparr>calls = [(bytes_at h pdfData, quality, scale)], events = evs',
                       outcome = Inr result', heap_after = h'\<rparr>
                 else then_run (bytes_at h pdfData, quality, scale) evs'
                        (compressToTargetSize_loop E h' pdfData targetBytes (attempts + 1)
                           (max (quality * 0.7) 0.1) (max (scale * 0.85) 0.3) result')))
      else \<lparr>calls = [], events = [], outcome = Inr result, heap_after = h\<rparr>)"
  by pat_completeness auto
termination
  by (relation "measure (\<lambda>(E, h, pdfData, targetBytes, attempts, quality, scale, result).
                           maxAttempts - attempts)")
     auto

declare compressToTargetSize_loop.simps [simp del]

text \<open>
  The function itself; \<^verbatim>\<open>let result = pdfData\<close> makes \<^verbatim>\<open>result\<close> the input array. An
  empty input passes the first test only for a negative target; the quotient is then
  \<^verbatim>\<open>-Infinity\<close> in JavaScript and 0 here, and both are in the first band.
\<close>

definition compressToTargetSize :: "env \<Rightarrow> heap \<Rightarrow> ref \<Rightarrow> real \<Rightarrow> search_run" where
  "compressToTargetSize E h pdfData targetSizeMB =
     (let targetBytes = targetSizeMB * 1024 * 1024;
          currentSize = real (length (bytes_at h pdfData))
      in if currentSize \<le> targetBytes
         then \<lparr>calls = [], events = [], outcome = Inr pdfData, heap_after = h\<rparr>
         else
           (let ratio = targetBytes / currentSize;
                (quality, scale) = initial_settings ratio
            in compressToTargetSize_loop E h pdfData targetBytes 0 quality scale pdfData))"

section \<open>pdf-utils.ts\<close>

record File =
  file_name :: string
  file_type :: string
  file_data :: bytes

text \<open>
  pdf-lib: \<^verbatim>\<open>pdf.getPageIndices()\<close> is \<open>0, \<dots>, n - 1\<close>; \<^verbatim>\<open>copyPages\<close> gives the copies
  of the pages at the indices, in the order of the indices; \<^verbatim>\<open>addPage\<close> appends.
\<close>

definition getPageIndices :: "PDFDocument \<Rightarrow> nat list" where
  "getPageIndices pdf = [0..<length pdf]"

definition copyPages :: "PDFDocument \<Rightarrow> nat list \<Rightarrow> PDFPage list" where
  "copyPages pdf indices = map (\<lambda>i. pdf ! i) indices"

definition addPage :: "PDFDocument \<Rightarrow> PDFPage \<Rightarrow> PDFDocument" where
  "addPage doc page = doc @ [page]"

text \<open>
  The loop over \<^verbatim>\<open>files\<close>: the calls of \<^verbatim>\<open>onProgress(current, total)\<close> and the
  accumulated document, or the error of the \<^verbatim>\<open>catch\<close> block that names the file.
\<close>

function mergePdfs_files ::
  "env \<Rightarrow> File list \<Rightarrow> nat \<Rightarrow> PDFDocument \<Rightarrow> (nat \<times> nat) list \<times> (thrown + PDFDocument)" where
  "mergePdfs_files E files i mergedPdf =
     (if i < length files then
        (let file = files ! i in
         case load E (file_data file) of
           Inl err \<Rightarrow>
             ([(i + 1, length files)],
              Inl (Error (''Failed to process '' @ dquote @ file_name file @ dquote @ '': '' @
                          message_or err ''Unknown error'')))
         | Inr pdf \<Rightarrow>
             (let pages = copyPages pdf (getPageIndices pdf) in
              case mergePdfs_files E files (i + 1) (foldl addPage mergedPdf pages) of
                (evs, r) \<Rightarrow> ((i + 1, length files) # evs, r)))
      else ([], Inr mergedPdf))"
  by pat_completeness auto
termination
  by (relation "measure (\<lambda>(E, files, i, mergedPdf). length files - i)") auto

declare mergePdfs_files.simps [simp del]

definition mergePdfs :: "env \<Rightarrow> File list \<Rightarrow> (nat \<times> nat) list \<times> (thrown + bytes)" where
  "mergePdfs E files =
     (case mergePdfs_files E files 0 [] of
        (evs, Inl e) \<Rightarrow> (evs, Inl e)
      | (evs, Inr mergedPdf) \<Rightarrow> (evs, Inr (save E mergedPdf)))"

section \<open>image-utils.ts\<close>

record Blob =
  blob_type :: string
  blob_data :: bytes

text \<open>The argument \<^verbatim>\<open>imageFile: File | Blob\<close>: a file has a name, a blob has none.\<close>

datatype image_source = AFile string Blob | ABlob Blob

text \<open>
  What the call of \<^verbatim>\<open>window.heic2any\<close> under \<^verbatim>\<open>withTimeout\<close> gives: one blob, an array
  of blobs (its first element and the rest), a rejection, or no answer before the timer
  of two minutes.
\<close>

datatype heic_result = OneBlob Blob | Blobs Blob "Blob list" | Rejected thrown | TimedOut

text \<open>
  The browser for images: \<^verbatim>\<open>window.heic2any\<close> when the script is loaded, and the width
  and height of the \<^verbatim>\<open>Image\<close> element once it has loaded (\<^verbatim>\<open>onerror\<close> otherwise).
\<close>

record image_env =
  heic2any :: "(Blob \<Rightarrow> heic_result) option"
  loadImage :: "Blob \<Rightarrow> (nat \<times> nat) option"

definition convertHeicToJpeg :: "image_env \<Rightarrow> string \<Rightarrow> Blob \<Rightarrow> thrown + Blob" where
  "convertHeicToJpeg I fname file =
     (case heic2any I of
        None \<Rightarrow> Inl (Error ''HEIC conversion library not loaded. Please refresh the page.'')
      | Some convert \<Rightarrow>
          (case convert file of
             OneBlob blob \<Rightarrow> Inr blob
           | Blobs blob rest \<Rightarrow> Inr blob
           | TimedOut \<Rightarrow>
               Inl (Error (''HEIC conversion failed: '' @ ''HEIC conversion timed out for '' @ fname))
           | Rejected (Error m) \<Rightarrow> Inl (Error (''HEIC conversion failed: '' @ m))
           | Rejected (NonError v) \<Rightarrow>
               Inl (Error ''HEIC conversion failed - the file may be corrupted or in an unsupported format'')))"

text \<open>\<^verbatim>\<open>fileName.replace(/\.(heic|heif|jpg|jpeg|png|webp)$/i, "")\<close>\<close>

definition image_extensions :: "string list" where
  "image_extensions = [''.heic'', ''.heif'', ''.jpg'', ''.jpeg'', ''.png'', ''.webp'']"

definition strip_image_extension :: "string \<Rightarrow> string" where
  "strip_image_extension fileName =
     (case filter (endsWith (toLowerCase fileName)) image_extensions of
        [] \<Rightarrow> fileName
      | ext # _ \<Rightarrow> take (length fileName - length ext) fileName)"

definition convertImageToPdf ::
  "env \<Rightarrow> image_env \<Rightarrow> image_source \<Rightarrow> string \<Rightarrow> thrown + File" where
  "convertImageToPdf E I imageFile fileName =
     (let isHeic =
            (case imageFile of
               AFile n b \<Rightarrow> endsWith (toLowerCase n) ''.heic'' \<or> endsWith (toLowerCase n) ''.heif''
             | ABlob b \<Rightarrow> False);
          converted =
            (case imageFile of
               AFile n b \<Rightarrow> if isHeic then convertHeicToJpeg I n b else Inr b
             | ABlob b \<Rightarrow> Inr b)
      in case converted of
           Inl e \<Rightarrow> Inl e
         | Inr imageBlob \<Rightarrow>
             (case loadImage I imageBlob of
                None \<Rightarrow> Inl (Error ''Failed to load image'')
              | Some (img_width, img_height) \<Rightarrow>
                  (let imageBytes = blob_data imageBlob;
                       type = (if blob_type imageBlob = [] then ''image/jpeg'' else blob_type imageBlob)
                   in case (if includes_str type ''png'' then embedPng E imageBytes
                            else embedJpg E imageBytes) of
                        Inl e \<Rightarrow> Inl e
                      | Inr embeddedImage \<Rightarrow>
                          (let pageWidth = real img_width * 0.75;
                               pageHeight = real img_height * 0.75;
                               page = \<lparr>pg_width = pageWidth, pg_height = pageHeight,
                                       pg_ops = [DrawImage embeddedImage 0 0 pageWidth pageHeight]\<rparr>;
                               pdfBytes = save E (addPage [] page)
                           in Inr \<lparr>file_name = strip_image_extension fileName @ ''.pdf'',
                                   file_type = ''application/pdf'',
                                   file_data = pdfBytes\<rparr>))))"

section \<open>App.tsx\<close>

datatype AppState = AppIdle | AppMerging | AppSuccess | AppCompressing

datatype PresetKey = extreme | high | medium | low | minimal

text \<open>\<^verbatim>\<open>COMPRESSION_PRESETS\<close>: quality and scale of a preset.\<close>

fun COMPRESSION_PRESETS :: "PresetKey \<Rightarrow> real \<times> real" where
  "COMPRESSION_PRESETS extreme = (0.3, 0.5)"
| "COMPRESSION_PRESETS high = (0.5, 0.75)"
| "COMPRESSION_PRESETS medium = (0.7, 1.0)"
| "COMPRESSION_PRESETS low = (0.85, 1.0)"
| "COMPRESSION_PRESETS minimal = (0.95, 1.0)"

text \<open>
  The state of the component that \<^verbatim>\<open>handleCompress\<close> reads and writes, and the texts
  it has shown with \<^verbatim>\<open>alert\<close>. \<open>mergedPdfData\<close> holds the reference of the array that
  \<^verbatim>\<open>setMergedPdfData\<close> was given. The field \<open>targetSizeMB_text\<close> is the state variable
  \<^verbatim>\<open>targetSizeMB\<close>, a string.
\<close>

record app =
  appState :: AppState
  mergedPdfData :: "ref option"
  compressProgress :: "CompressionProgress option"
  targetSizeMB_text :: string
  compressionPreset :: PresetKey
  useTargetSize :: bool
  alerts :: "string list"

text \<open>
  The compression entry point \<^verbatim>\<open>handleCompress\<close> calls, on the stored array itself and
  with \<^verbatim>\<open>setCompressProgress\<close> as the observer: the events, the array returned or the
  error, and the heap afterwards. \<open>parseFloat\<close> gives \<open>None\<close> for NaN;
  \<^verbatim>\<open>parseFloat(targetSizeMB) || 10\<close> is 10 for NaN and for 0.
\<close>

definition run_compression ::
  "env \<Rightarrow> (string \<Rightarrow> real option) \<Rightarrow> app \<Rightarrow> heap \<Rightarrow> ref
    \<Rightarrow> CompressionProgress list \<times> (thrown + ref) \<times> heap" where
  "run_compression E parseFloat st h data =
     (if useTargetSize st then
        (let target = (case parseFloat (targetSizeMB_text st) of
                         None \<Rightarrow> 10
                       | Some v \<Rightarrow> if v = 0 then 10 else v);
             run = compressToTargetSize E h data target
         in (events run, outcome run, heap_after run))
      else
        (let preset = COMPRESSION_PRESETS (compressionPreset st)
         in compressPdf E h data (fst preset) (snd preset)))"

definition handleCompress ::
  "env \<Rightarrow> (string \<Rightarrow> real option) \<Rightarrow> app \<Rightarrow> heap \<Rightarrow> app \<times> heap" where
  "handleCompress E parseFloat st h =
     (case mergedPdfData st of
        None \<Rightarrow> (st\<lparr>alerts := alerts st @ [''No PDF data to compress'']\<rparr>, h)
      | Some data \<Rightarrow>
          (case run_compression E parseFloat st h data of
             (evs, r, h') \<Rightarrow>
               (let st' = st\<lparr>appState := AppCompressing,
                             compressProgress := (if evs = [] then None else Some (last evs))\<rparr>;
                    r' = (case r of
                            Inl e \<Rightarrow> Inl e
                          | Inr compressedPdf \<Rightarrow>
                              if length (bytes_at h' compressedPdf) = 0
                              then Inl (Error ''Compression produced an empty file'')
                              else Inr compressedPdf)
                in case r' of
                     Inr compressedPdf \<Rightarrow>
                       (st'\<lparr>mergedPdfData := Some compressedPdf, appState := AppSuccess\<rparr>, h')
                   | Inl err \<Rightarrow>
                       (st'\<lparr>appState := AppSuccess,
                            alerts := alerts st @
                              [''Failed to compress PDF:'' @ newline @ newline @
                               message_or err ''Unknown error occurred'']\<rparr>, h'))))"

text \<open>
  \<^verbatim>\<open>handleDownload\<close> hands the stored array to \<^verbatim>\<open>downloadPdf\<close>: the bytes that the array
  holds at that time.
\<close>

definition stored_bytes :: "app \<Rightarrow> heap \<Rightarrow> bytes option" where
  "stored_bytes st h = map_option (bytes_at h) (mergedPdfData st)"

section \<open>The command line: index.ts\<close>

text \<open>
  Node for one run of the program: the functions of \<^verbatim>\<open>path\<close>, the text of
  \<^verbatim>\<open>new Date().toISOString()\<close>, whether \<^verbatim>\<open>fs.access\<close> resolves, \<^verbatim>\<open>fs.readFile\<close>,
  whether \<^verbatim>\<open>fs.writeFile\<close> rejects, and pdf-lib's \<^verbatim>\<open>load\<close> and \<^verbatim>\<open>save\<close>.
\<close>

record node =
  path_resolve :: "string \<Rightarrow> string"
  path_basename :: "string \<Rightarrow> string"
  path_dirname :: "string \<Rightarrow> string"
  path_join :: "string \<Rightarrow> string \<Rightarrow> string"
  toISOString :: string
  fs_access :: "string \<Rightarrow> bool"
  fs_readFile :: "string \<Rightarrow> thrown + bytes"
  fs_writeFile :: "string \<Rightarrow> bytes \<Rightarrow> thrown option"
  pdf_load :: "bytes \<Rightarrow> thrown + PDFDocument"
  pdf_save :: "PDFDocument \<Rightarrow> bytes"

text \<open>
  What a run did: the exit status, the texts of \<^verbatim>\<open>console.log\<close> (standard output) and
  of \<^verbatim>\<open>console.error\<close> (standard error), one entry per call.
\<close>

record process =
  exit_status :: nat
  stdout :: "string list"
  stderr :: "string list"

text \<open>The symbols of the messages, as their UTF-8 bytes.\<close>

definition cross_mark :: string where
  "cross_mark = [CHR 0xE2, CHR 0x9D, CHR 0x8C]"

definition check_mark :: string where
  "check_mark = [CHR 0xE2, CHR 0x9C, CHR 0x85]"

definition books :: string where
  "books = [CHR 0xF0, CHR 0x9F, CHR 0x93, CHR 0x9A]"

definition page_facing_up :: string where
  "page_facing_up = [CHR 0xF0, CHR 0x9F, CHR 0x93, CHR 0x84]"

definition link_symbol :: string where
  "link_symbol = [CHR 0xF0, CHR 0x9F, CHR 0x94, CHR 0x97]"

definition file_folder :: string where
  "file_folder = [CHR 0xF0, CHR 0x9F, CHR 0x93, CHR 0x81]"

definition generateOutputPath :: "node \<Rightarrow> string \<Rightarrow> string" where
  "generateOutputPath N firstInputPath =
     (let dir = path_dirname N firstInputPath;
          timestamp = take 19 (map (\<lambda>c. if c = CHR '':'' \<or> c = CHR ''.'' then CHR ''-'' else c)
                                  (toISOString N))
      in path_join N dir (''merged-'' @ timestamp @ ''.pdf''))"

text \<open>
  The loop of \<^verbatim>\<open>mergePdfs\<close> over \<^verbatim>\<open>inputPaths\<close>: the lines it logs and the accumulated
  document, or what \<^verbatim>\<open>readFile\<close> or \<^verbatim>\<open>load\<close> threw.
\<close>

fun cli_merge_paths ::
  "node \<Rightarrow> string list \<Rightarrow> PDFDocument \<Rightarrow> string list \<times> (thrown + PDFDocument)" where
  "cli_merge_paths N [] mergedPdf = ([], Inr mergedPdf)"
| "cli_merge_paths N (inputPath # rest) mergedPdf =
     (let absolutePath = path_resolve N inputPath;
          line = page_facing_up @ '' Adding: '' @ path_basename N absolutePath
      in case fs_readFile N absolutePath of
           Inl e \<Rightarrow> ([line], Inl e)
         | Inr pdfBytes \<Rightarrow>
             (case pdf_load N pdfBytes of
                Inl e \<Rightarrow> ([line], Inl e)
              | Inr pdf \<Rightarrow>
                  (let pages = copyPages pdf (getPageIndices pdf) in
                   case cli_merge_paths N rest (foldl addPage mergedPdf pages) of
                     (out, r) \<Rightarrow> (line # out, r))))"

text \<open>
  \<^verbatim>\<open>mergePdfs(inputPaths, {outputPath})\<close> of the command line: the lines logged and the
  path written, or what was thrown. \<^verbatim>\<open>options.outputPath || generateOutputPath(...)\<close>
  takes the generated path for \<^verbatim>\<open>undefined\<close> and for the empty string.
\<close>

definition cli_mergePdfs ::
  "node \<Rightarrow> string list \<Rightarrow> string option \<Rightarrow> string list \<times> (thrown + string)" where
  "cli_mergePdfs N inputPaths outputPath_opt =
     (case inputPaths of
        [] \<Rightarrow> ([], Inl (Error ''No input PDF files provided''))
      | firstInputPath # _ \<Rightarrow>
          (case cli_merge_paths N inputPaths [] of
             (out, Inl e) \<Rightarrow> (out, Inl e)
           | (out, Inr mergedPdf) \<Rightarrow>
               (let outputPath = (case outputPath_opt of
                                    None \<Rightarrow> generateOutputPath N firstInputPath
                                  | Some p \<Rightarrow> if p = [] then generateOutputPath N firstInputPath else p);
                    mergedPdfBytes = pdf_save N mergedPdf
                in case fs_writeFile N outputPath mergedPdfBytes of
                     Some e \<Rightarrow> (out, Inl e)
                   | None \<Rightarrow> (out, Inr outputPath))))"

definition usage_text :: string where
  "usage_text =
     newline @
     books @ '' PDF Merger - Merge multiple PDFs into one'' @ newline @
     newline @
     ''Usage:'' @ newline @
     ''  npx tsx src/index.ts <file1.pdf> <file2.pdf> [...] [-o output.pdf]'' @ newline @
     newline @
     ''Options:'' @ newline @
     ''  -o, --output    Specify output file path (default: merged-<timestamp>.pdf)'' @ newline @
     ''  -h, --help      Show this help message'' @ newline @
     newline @
     ''Examples:'' @ newline @
     ''  npx tsx src/index.ts doc1.pdf doc2.pdf doc3.pdf'' @ newline @
     ''  npx tsx src/index.ts doc1.pdf doc2.pdf -o combined.pdf'' @ newline @
     ''  npx tsx src/index.ts ~/Documents/*.pdf -o ~/Desktop/all-docs.pdf'' @ newline"

text \<open>
  The loop of \<^verbatim>\<open>main\<close> over \<^verbatim>\<open>args\<close>: the input paths and the output path, or the
  message of the \<^verbatim>\<open>console.error\<close> before \<^verbatim>\<open>process.exit(1)\<close>. After \<^verbatim>\<open>-o\<close> the
  statement \<^verbatim>\<open>outputPath = args[++i]\<close> takes the next argument, and \<^verbatim>\<open>!outputPath\<close>
  holds when there is none or it is empty.
\<close>

function parse_args ::
  "string list \<Rightarrow> nat \<Rightarrow> string list \<Rightarrow> string option \<Rightarrow> string + (string list \<times> string option)" where
  "parse_args args i inputPaths outputPath =
     (if i < length args then
        (let arg = args ! i in
         if arg = ''-o'' \<or> arg = ''--output'' then
           (case index_opt args (i + 1) of
              None \<Rightarrow> Inl (cross_mark @ '' Error: Output path not specified after -o flag'')
            | Some v \<Rightarrow>
                if v = [] then Inl (cross_mark @ '' Error: Output path not specified after -o flag'')
                else parse_args args (i + 2) inputPaths (Some v))
         else if endsWith arg ''.pdf'' then parse_args args (i + 1) (inputPaths @ [arg]) outputPath
         else Inl (cross_mark @ '' Error: Invalid argument or non-PDF file: '' @ arg))
      else Inr (inputPaths, outputPath))"
  by pat_completeness auto
termination
  by (relation "measure (\<lambda>(args, i, inputPaths, outputPath). length args - i)") auto

declare parse_args.simps [simp del]

text \<open>The loop that verifies that every input file exists: the first path that does not.\<close>

fun first_missing :: "node \<Rightarrow> string list \<Rightarrow> string option" where
  "first_missing N [] = None"
| "first_missing N (inputPath # rest) =
     (if fs_access N (path_resolve N inputPath) then first_missing N rest else Some inputPath)"

text \<open>\<^verbatim>\<open>${error instanceof Error ? error.message : error}\<close>\<close>

fun message_or_text :: "thrown \<Rightarrow> string" where
  "message_or_text (Error m) = m"
| "message_or_text (NonError v) = v"

definition main :: "node \<Rightarrow> string list \<Rightarrow> process" where
  "main N args =
     (if length args = 0 \<or> ''-h'' \<in> set args \<or> ''--help'' \<in> set args
      then \<lparr>exit_status = (if length args = 0 then 1 else 0), stdout = [usage_text], stderr = []\<rparr>
      else
        (case parse_args args 0 [] None of
           Inl msg \<Rightarrow> \<lparr>exit_status = 1, stdout = [], stderr = [msg]\<rparr>
         | Inr (inputPaths, outputPath) \<Rightarrow>
             if length inputPaths < 2
             then \<lparr>exit_status = 1, stdout = [],
                   stderr = [cross_mark @ '' Error: Please provide at least 2 PDF files to merge'']\<rparr>
             else
               (case first_missing N inputPaths of
                  Some inputPath \<Rightarrow>
                    \<lparr>exit_status = 1, stdout = [],
                     stderr = [cross_mark @ '' Error: File not found: '' @ inputPath]\<rparr>
                | None \<Rightarrow>
                    (let banner = newline @ link_symbol @ '' Merging '' @ show_nat (length inputPaths)
                                    @ '' PDF files...'' @ newline
                     in case cli_mergePdfs N inputPaths outputPath of
                          (out, Inr resultPath) \<Rightarrow>
                            \<lparr>exit_status = 0,
                             stdout = banner # out @
                               [newline @ check_mark @ '' Successfully merged PDFs!'',
                                file_folder @ '' Output: '' @ path_resolve N resultPath],
                             stderr = []\<rparr>
                        | (out, Inl err) \<Rightarrow>
                            \<lparr>exit_status = 1, stdout = banner # out,
                             stderr = [newline @ cross_mark @ '' Error merging PDFs: ''
                                         @ message_or_text err]\<rparr>))))"

section \<open>Vocabulary of the properties\<close>

text \<open>Whether a call of the compressor respects the floors of quality and scale.\<close>

definition floors_ok :: "bytes \<times> real \<times> real \<Rightarrow> bool" where
  "floors_ok c = (case c of (pdfData, quality, scale) \<Rightarrow> 0.1 \<le> quality \<and> 0.3 \<le> scale)"

text \<open>A page of the size of \<open>w\<close> by \<open>h\<close> times 0.75 that one image fills.\<close>

definition full_page_image :: "real \<Rightarrow> real \<Rightarrow> PDFImage \<Rightarrow> PDFPage" where
  "full_page_image w h img =
     \<lparr>pg_width = w * 0.75, pg_height = h * 0.75,
      pg_ops = [DrawImage img 0 0 (w * 0.75) (h * 0.75)]\<rparr>"

text \<open>
  The size of a rebuilt page as the pixel dimensions of its image times 0.75, the image
  being the one rendered for \<open>page\<close> at \<open>scale\<close>.
\<close>

definition page_sized_by_image :: "PDFPageProxy \<Rightarrow> real \<Rightarrow> PDFPage \<Rightarrow> bool" where
  "page_sized_by_image page scale p =
     (pg_width p = real_of_int (cv_width (createCanvas (getViewport page scale))) * 0.75 \<and>
      pg_height p = real_of_int (cv_height (createCanvas (getViewport page scale))) * 0.75)"

text \<open>
  The words of the interface about the command line: the arguments that are neither
  \<^verbatim>\<open>-o\<close>/\<^verbatim>\<open>--output\<close> nor the value that follows one; whether one of them does not end
  in \<^verbatim>\<open>.pdf\<close> (an unrecognized argument); and those that do (the valid input paths).
\<close>

fun positional :: "string list \<Rightarrow> string list" where
  "positional [] = []"
| "positional (a # rest) =
     (if a = ''-o'' \<or> a = ''--output'' then positional (drop 1 rest) else a # positional rest)"

definition unrecognized :: "string list \<Rightarrow> bool" where
  "unrecognized args = list_ex (\<lambda>a. \<not> endsWith a ''.pdf'') (positional args)"

definition valid_inputs :: "string list \<Rightarrow> string list" where
  "valid_inputs args = filter (\<lambda>a. endsWith a ''.pdf'') (positional args)"

section \<open>Example inputs\<close>

text \<open>
  An environment for the examples: pdf.js rejects empty data and reads any other as a
  document of one page of 612 by 792 that always renders; an encoder whose output is
  longer below quality 0.2; a loader that reads
  every byte as one page, and a writer that gives the bytes of the images and the
  numbers of the copied contents.
\<close>

definition page0 :: PDFPageProxy where
  "page0 = \<lparr>getViewport = (\<lambda>s. (612 * s, 792 * s)),
            render = (\<lambda>c v. Inr (c\<lparr>cv_drawn := Some 1\<rparr>))\<rparr>"

definition demo_doc :: PDFDocumentProxy where
  "demo_doc = \<lparr>numPages = 1, getPage = (\<lambda>i. Inr page0)\<rparr>"

fun op_bytes :: "page_op \<Rightarrow> bytes" where
  "op_bytes (DrawImage (Jpg b) x y w h) = b"
| "op_bytes (DrawImage (Png b) x y w h) = b"
| "op_bytes (SourceContent n) = [of_nat n]"

definition byte_page :: "8 word \<Rightarrow> PDFPage" where
  "byte_page b = \<lparr>pg_width = 612, pg_height = 792, pg_ops = [SourceContent (unat b)]\<rparr>"

definition empty_pdf_error :: thrown where
  "empty_pdf_error = Error ''The PDF file is empty, i.e. its size is zero bytes.''"

definition demo_env :: env where
  "demo_env =
     \<lparr>getDocument = (\<lambda>d. if d = [] then Inl empty_pdf_error else Inr demo_doc),
      canvas_context = True,
      toDataURL = (\<lambda>c q. if q < 0.2 then ''data:image/jpeg;base64,AAAA'' else ''data:image/jpeg;base64,AA''),
      atob = (\<lambda>s. Inr s),
      embedJpg = (\<lambda>b. Inr (Jpg b)),
      embedPng = (\<lambda>b. Inr (Png b)),
      load = (\<lambda>b. Inr (map byte_page b)),
      save = (\<lambda>doc. concat (map (\<lambda>p. concat (map op_bytes (pg_ops p))) doc))\<rparr>"

text \<open>The same with a document of three pages whose second page cannot be drawn.\<close>

definition faulty_page :: PDFPageProxy where
  "faulty_page = \<lparr>getViewport = (\<lambda>s. (612 * s, 792 * s)),
                  render = (\<lambda>c v. Inl (Error ''out of memory''))\<rparr>"

definition faulty_doc :: PDFDocumentProxy where
  "faulty_doc = \<lparr>numPages = 3, getPage = (\<lambda>i. if i = 2 then Inr faulty_page else Inr page0)\<rparr>"

definition faulty_env :: env where
  "faulty_env =
     demo_env\<lparr>getDocument := (\<lambda>d. if d = [] then Inl empty_pdf_error else Inr faulty_doc)\<rparr>"

text \<open>The same as the first, with a writer whose output is always 10.5 MB.\<close>

definition stubborn_env :: env where
  "stubborn_env = demo_env\<lparr>save := (\<lambda>doc. replicate 11010048 0)\<rparr>"

text \<open>
  The heap with no array; the heap in which \<^verbatim>\<open>save()\<close> has returned an array of the
  bytes \<open>b\<close>, which is reference 0 and spans its buffer; and the heap in which
  reference 0 is a view of the bytes \<open>b\<close> on a part of a larger buffer.
\<close>

definition no_arrays :: heap where
  "no_arrays = \<lparr>arrays = (\<lambda>r. \<lparr>elements = [], whole_buffer = True\<rparr>), fresh = 0\<rparr>"

definition saved :: "bytes \<Rightarrow> heap" where
  "saved b = snd (new_array no_arrays b)"

definition viewed :: "bytes \<Rightarrow> heap" where
  "viewed b =
     \<lparr>arrays = (arrays no_arrays)(0 := \<lparr>elements = b, whole_buffer = False\<rparr>), fresh = 1\<rparr>"

text \<open>
  An input of eight bytes and one of 11 MB, two files to merge, an image, and two states
  of the application after a merge whose array is reference 0: one in preset mode and
  one in target-size mode, with the target of 10 MB.
\<close>

definition demo_pdf :: bytes where
  "demo_pdf = [37, 80, 68, 70, 45, 49, 46, 55]"

definition large_pdf :: bytes where
  "large_pdf = replicate (11 * 1024 * 1024) 37"

definition demo_files :: "File list" where
  "demo_files =
     [\<lparr>file_name = ''a.pdf'', file_type = ''application/pdf'', file_data = [1, 2]\<rparr>,
      \<lparr>file_name = ''b.pdf'', file_type = ''application/pdf'', file_data = [3]\<rparr>]"

definition demo_image_env :: image_env where
  "demo_image_env = \<lparr>heic2any = None, loadImage = (\<lambda>b. Some (800, 600))\<rparr>"

definition demo_image :: image_source where
  "demo_image = AFile ''photo.JPG'' \<lparr>blob_type = ''image/jpeg'', blob_data = [255, 216]\<rparr>"

definition demo_parseFloat :: "string \<Rightarrow> real option" where
  "demo_parseFloat s = (if s = ''10'' then Some 10 else None)"

definition preset_app :: app where
  "preset_app =
     \<lparr>appState = AppSuccess, mergedPdfData = Some 0, compressProgress = None,
      targetSizeMB_text = ''10'', compressionPreset = medium, useTargetSize = False,
      alerts = []\<rparr>"

definition target_app :: app where
  "target_app = preset_app\<lparr>useTargetSize := True\<rparr>"

text \<open>A file system where every file exists and holds a document of one page.\<close>

definition demo_node :: node where
  "demo_node =
     \<lparr>path_resolve = (\<lambda>p. ''/work/'' @ p),
      path_basename = (\<lambda>p. drop 6 p),
      path_dirname = (\<lambda>p. ''.''),
      path_join = (\<lambda>a b. a @ ''/'' @ b),
      toISOString = ''2024-01-02T03:04:05.678Z'',
      fs_access = (\<lambda>p. True),
      fs_readFile = (\<lambda>p. Inr [37, 80, 68, 70]),
      fs_writeFile = (\<lambda>p b. None),
      pdf_load = (\<lambda>b. Inr [\<lparr>pg_width = 612, pg_height = 792, pg_ops = [SourceContent 1]\<rparr>]),
      pdf_save = (\<lambda>doc. replicate (length doc) 1)\<rparr>"

section \<open>Properties of the target-size search\<close>

lemma calls_then_run: "calls (then_run c evs r) = c # calls r"
  by (simp add: then_run_def)

lemma loop_done:
  "\<not> attempts < maxAttempts \<Longrightarrow>
   compressToTargetSize_loop E h pdfData targetBytes attempts quality scale result =
     \<lparr>calls = [], events = [], outcome = Inr result, heap_after = h\<rparr>"
  by (simp add: compressToTargetSize_loop.simps [of E h pdfData targetBytes attempts])

lemma loop_throw:
  "attempts < maxAttempts \<Longrightarrow> compressPdf E h pdfData quality scale = (evs, Inl e, h') \<Longrightarrow>
   compressToTargetSize_loop E h pdfData targetBytes attempts quality scale result =
     \<lparr>calls = [(bytes_at h pdfData, quality, scale)],
      events = map (attach_size (take_buffer h pdfData) result) evs,
      outcome = Inl e, heap_after = h'\<rparr>"
  by (simp add: compressToTargetSize_loop.simps [of E h pdfData targetBytes attempts])

lemma loop_fit:
  "attempts < maxAttempts \<Longrightarrow> compressPdf E h pdfData quality scale = (evs, Inr result', h') \<Longrightarrow>
   real (length (bytes_at h' result')) \<le> targetBytes \<Longrightarrow>
   compressToTargetSize_loop E h pdfData targetBytes attempts quality scale result =
     \<lparr>calls = [(bytes_at h pdfData, quality, scale)],
      events = map (attach_size (take_buffer h pdfData) result) evs
                 @ [compressing_event (attempts + 1) (real (length (bytes_at h' result')) / MB)],
      outcome = Inr result', heap_after = h'\<rparr>"
  by (simp add: compressToTargetSize_loop.simps [of E h pdfData targetBytes attempts])

lemma loop_retry:
  "attempts < maxAttempts \<Longrightarrow> compressPdf E h pdfData quality scale = (evs, Inr result', h') \<Longrightarrow>
   \<not> real (length (bytes_at h' result')) \<le> targetBytes \<Longrightarrow>
   compressToTargetSize_loop E h pdfData targetBytes attempts quality scale result =
     then_run (bytes_at h pdfData, quality, scale)
       (map (attach_size (take_buffer h pdfData) result) evs
          @ [compressing_event (attempts + 1) (real (length (bytes_at h' result')) / MB)])
       (compressToTargetSize_loop E h' pdfData targetBytes (attempts + 1)
          (max (quality * 0.7) 0.1) (max (scale * 0.85) 0.3) result')"
  by (simp add: compressToTargetSize_loop.simps [of E h pdfData targetBytes attempts])

lemma initial_settings_floor:
  "0.1 \<le> fst (initial_settings ratio) \<and> 0.3 \<le> snd (initial_settings ratio)"
  by (simp add: initial_settings_def)

lemma loop_bounded:
  "0.1 \<le> quality \<Longrightarrow> 0.3 \<le> scale \<Longrightarrow>
   length (calls (compressToTargetSize_loop E h pdfData targetBytes attempts quality scale result))
      \<le> maxAttempts - attempts \<and>
   list_all floors_ok
     (calls (compressToTargetSize_loop E h pdfData targetBytes attempts quality scale result))"
proof (induction E h pdfData targetBytes attempts quality scale result
       rule: compressToTargetSize_loop.induct)
  case (1 E h pdfData targetBytes attempts quality scale result)
  show ?case
  proof (cases "attempts < maxAttempts")
    case False
    then show ?thesis by (simp add: loop_done)
  next
    case True
    obtain evs res h' where cp: "compressPdf E h pdfData quality scale = (evs, res, h')"
      by (cases "compressPdf E h pdfData quality scale")
    have this_call: "floors_ok (bytes_at h pdfData, quality, scale)"
      using "1.prems" by (simp add: floors_ok_def)
    show ?thesis
    proof (cases res)
      case (Inl e)
      with True cp this_call show ?thesis
        by (simp add: loop_throw)
    next
      case (Inr result')
      show ?thesis
      proof (cases "real (length (bytes_at h' result')) \<le> targetBytes")
        case le: True
        with True cp Inr this_call show ?thesis
          by (simp add: loop_fit)
      next
        case gt: False
        have "length (calls (compressToTargetSize_loop E h' pdfData targetBytes (attempts + 1)
                 (max (quality * 0.7) 0.1) (max (scale * 0.85) 0.3) result'))
               \<le> maxAttempts - (attempts + 1) \<and>
              list_all floors_ok
                (calls (compressToTargetSize_loop E h' pdfData targetBytes (attempts + 1)
                   (max (quality * 0.7) 0.1) (max (scale * 0.85) 0.3) result'))"
          using "1.IH" [OF True cp [symmetric] refl Inr refl refl gt] by simp
        with True cp Inr gt this_call show ?thesis
          by (auto simp add: loop_retry calls_then_run)
      qed
    qed
  qed
qed

text \<open>
  Claim C1. For every environment, heap, input array and target size, the target-size
  search calls the single-pass compressor at most 5 times, and every call has
  quality at least 0.1 and scale at least 0.3.
\<close>

theorem target_search_bounded:
  "length (calls (compressToTargetSize E h pdfData targetSizeMB)) \<le> 5 \<and>
   (\<forall>c \<in> set (calls (compressToTargetSize E h pdfData targetSizeMB)).
      0.1 \<le> fst (snd c) \<and> 0.3 \<le> snd (snd c))"
proof (cases "real (length (bytes_at h pdfData)) \<le> targetSizeMB * 1024 * 1024")
  case True
  then show ?thesis by (simp add: compressToTargetSize_def)
next
  case False
  define ratio where "ratio = targetSizeMB * 1024 * 1024 / real (length (bytes_at h pdfData))"
  define run where "run = compressToTargetSize_loop E h pdfData (targetSizeMB * 1024 * 1024) 0
      (fst (initial_settings ratio)) (snd (initial_settings ratio)) pdfData"
  have run: "compressToTargetSize E h pdfData targetSizeMB = run"
    using False by (simp add: compressToTargetSize_def run_def ratio_def Let_def case_prod_beta)
  have "length (calls run) \<le> maxAttempts - 0 \<and> list_all floors_ok (calls run)"
    unfolding run_def using initial_settings_floor [of ratio] by (intro loop_bounded) simp_all
  then show ?thesis
    unfolding run by (auto simp add: maxAttempts_def list_all_iff floors_ok_def)
qed

lemma viewed_run_calls:
  "calls (compressToTargetSize demo_env (viewed demo_pdf) 0 (1 / 1048576)) =
     [(demo_pdf, 0.3, 0.5), (demo_pdf, 0.21, 0.425), (demo_pdf, 0.147, 0.36125),
      (demo_pdf, 0.1029, 0.3070625), (demo_pdf, 0.1, 0.3)]"
  by code_simp

theorem target_search_bounded_witness:
  "calls (compressToTargetSize demo_env (viewed demo_pdf) 0 (1 / 1048576)) \<noteq> [] \<and>
   length (calls (compressToTargetSize demo_env (viewed demo_pdf) 0 (1 / 1048576))) \<le> 5 \<and>
   0.1 \<le> fst (snd (last (calls (compressToTargetSize demo_env (viewed demo_pdf) 0 (1 / 1048576))))) \<and>
   0.3 \<le> snd (snd (last (calls (compressToTargetSize demo_env (viewed demo_pdf) 0 (1 / 1048576)))))"
proof -
  have nonempty: "calls (compressToTargetSize demo_env (viewed demo_pdf) 0 (1 / 1048576)) \<noteq> []"
    by (simp add: viewed_run_calls)
  then have "last (calls (compressToTargetSize demo_env (viewed demo_pdf) 0 (1 / 1048576)))
               \<in> set (calls (compressToTargetSize demo_env (viewed demo_pdf) 0 (1 / 1048576)))"
    by (rule last_in_set)
  with nonempty target_search_bounded [of demo_env "viewed demo_pdf" 0 "1 / 1048576"]
  show ?thesis by blast
qed


lemma bytes_at_saved: "bytes_at (saved b) 0 = b"
  by (simp add: saved_def new_array_def no_arrays_def bytes_at_def)


text \<open>
  Claim C3. When the input has at most \<open>targetSizeMB * 1024 * 1024\<close> bytes,
  \<^verbatim>\<open>compressToTargetSize\<close> returns the input array itself, with the bytes it had, calls
  the compressor not once and sends no progress event.
\<close>

theorem under_target_unchanged:
  "real (length (bytes_at h pdfData)) \<le> targetSizeMB * 1024 * 1024 \<Longrightarrow>
   compressToTargetSize E h pdfData targetSizeMB
     = \<lparr>calls = [], events = [], outcome = Inr pdfData, heap_after = h\<rparr>"
  by (simp add: compressToTargetSize_def)

theorem under_target_unchanged_witness:
  "real (length (bytes_at (saved demo_pdf) 0)) \<le> 10 * 1024 * 1024 \<and>
   compressToTargetSize demo_env (saved demo_pdf) 0 10
     = \<lparr>calls = [], events = [], outcome = Inr 0, heap_after = saved demo_pdf\<rparr> \<and>
   bytes_at (saved demo_pdf) 0 = demo_pdf"
proof -
  have h: "real (length (bytes_at (saved demo_pdf) 0)) \<le> 10 * 1024 * 1024"
    by (simp add: bytes_at_saved demo_pdf_def)
  show ?thesis using h under_target_unchanged [OF h, of demo_env] by (simp add: bytes_at_saved)
qed

section \<open>Properties of the single pass\<close>

lemma pages_past_end:
  "\<not> i \<le> numPages pdfDoc \<Longrightarrow>
   compressPdf_pages E pdfDoc quality scale i newPdf = ([], Inr newPdf)"
  by (simp add: compressPdf_pages.simps [of E pdfDoc quality scale i])

lemma pages_fail:
  "i \<le> numPages pdfDoc \<Longrightarrow> process_page E pdfDoc quality scale i = Inl err \<Longrightarrow>
   compressPdf_pages E pdfDoc quality scale i newPdf =
     ([rendering_event i (numPages pdfDoc)],
      Inl (Error (''Failed to process page '' @ show_nat i @ '': '' @
                  message_or err ''Unknown error'')))"
  by (simp add: compressPdf_pages.simps [of E pdfDoc quality scale i])

lemma pages_step:
  "i \<le> numPages pdfDoc \<Longrightarrow> process_page E pdfDoc quality scale i = Inr newPage \<Longrightarrow>
   compressPdf_pages E pdfDoc quality scale i newPdf =
     (rendering_event i (numPages pdfDoc)
        # fst (compressPdf_pages E pdfDoc quality scale (i + 1) (newPdf @ [newPage])),
      snd (compressPdf_pages E pdfDoc quality scale (i + 1) (newPdf @ [newPage])))"
  by (simp add: compressPdf_pages.simps [of E pdfDoc quality scale i] case_prod_beta)

lemma pages_abort_at:
  assumes "i \<le> k" and "k \<le> numPages pdfDoc"
    and "\<forall>j. i \<le> j \<and> j < k \<longrightarrow> (\<exists>p. process_page E pdfDoc quality scale j = Inr p)"
    and "process_page E pdfDoc quality scale k = Inl err"
  shows "compressPdf_pages E pdfDoc quality scale i newPdf =
           (map (\<lambda>j. rendering_event j (numPages pdfDoc)) [i..<k + 1],
            Inl (Error (''Failed to process page '' @ show_nat k @ '': '' @
                        message_or err ''Unknown error'')))"
  using assms
proof (induction "k - i" arbitrary: i newPdf)
  case 0
  then have "i = k" by simp
  with 0 show ?case by (simp add: pages_fail)
next
  case (Suc d)
  then have lt: "i < k" by simp
  with Suc.prems obtain p where p: "process_page E pdfDoc quality scale i = Inr p"
    by blast
  have rest: "compressPdf_pages E pdfDoc quality scale (i + 1) (newPdf @ [p]) =
           (map (\<lambda>j. rendering_event j (numPages pdfDoc)) [i + 1..<k + 1],
            Inl (Error (''Failed to process page '' @ show_nat k @ '': '' @
                        message_or err ''Unknown error'')))"
    using Suc.hyps(2) Suc.prems lt by (intro Suc.hyps(1)) auto
  have "[i..<k + 1] = i # [i + 1..<k + 1]"
    using lt by (simp add: upt_conv_Cons)
  with rest p lt Suc.prems(2) show ?case
    by (simp add: pages_step)
qed

lemma pass_aborts_at_first_failure:
  assumes "getDocument E (bytes_at h pdfData) = Inr pdfDoc"
    and "1 \<le> k" and "k \<le> numPages pdfDoc"
    and "\<forall>j. 1 \<le> j \<and> j < k \<longrightarrow> (\<exists>p. process_page E pdfDoc quality scale j = Inr p)"
    and "process_page E pdfDoc quality scale k = Inl err"
  shows "compressPdf E h pdfData quality scale =
           (map (\<lambda>j. rendering_event j (numPages pdfDoc)) [1..<k + 1],
            Inl (Error (''Failed to process page '' @ show_nat k @ '': '' @
                        message_or err ''Unknown error'')),
            take_buffer h pdfData)"
  using assms(1) pages_abort_at [OF assms(2-5), of "[]"]
  by (simp add: compressPdf_def pdfjs_getDocument_def)

text \<open>
  Claim C7. When the processing of some page of a pass fails, there is a first such
  page \<open>k\<close>, and \<^verbatim>\<open>compressPdf\<close> throws an error whose message is
  \<^verbatim>\<open>Failed to process page k: ...\<close> with the 1-based number of that page and the message
  of what the page threw; the rendering events are those of the pages 1 to \<open>k\<close>, so no
  later page is processed, and no array is returned. The heap is the one that
  \<^verbatim>\<open>getDocument\<close> has left.
\<close>

theorem page_failure_aborts:
  assumes doc: "getDocument E (bytes_at h pdfData) = Inr pdfDoc"
    and i: "1 \<le> i" "i \<le> numPages pdfDoc"
    and fails: "process_page E pdfDoc quality scale i = Inl err0"
  shows "\<exists>k err. 1 \<le> k \<and> k \<le> i \<and>
           process_page E pdfDoc quality scale k = Inl err \<and>
           (\<forall>j. 1 \<le> j \<and> j < k \<longrightarrow> (\<exists>p. process_page E pdfDoc quality scale j = Inr p)) \<and>
           compressPdf E h pdfData quality scale =
             (map (\<lambda>j. rendering_event j (numPages pdfDoc)) [1..<k + 1],
              Inl (Error (''Failed to process page '' @ show_nat k @ '': '' @
                          message_or err ''Unknown error'')),
              take_buffer h pdfData)"
proof -
  define failing where
    "failing j \<longleftrightarrow> 1 \<le> j \<and> (\<exists>e. process_page E pdfDoc quality scale j = Inl e)" for j
  define k where "k = (LEAST j. failing j)"
  have "failing i" using i(1) fails by (auto simp add: failing_def)
  then have fk: "failing k" and ki: "k \<le> i"
    unfolding k_def by (rule LeastI, rule Least_le)
  from fk obtain err where k1: "1 \<le> k" and err: "process_page E pdfDoc quality scale k = Inl err"
    by (auto simp add: failing_def)
  have before: "\<forall>j. 1 \<le> j \<and> j < k \<longrightarrow> (\<exists>p. process_page E pdfDoc quality scale j = Inr p)"
  proof (intro allI impI)
    fix j assume j: "1 \<le> j \<and> j < k"
    then have "\<not> failing j" unfolding k_def using not_less_Least by blast
    with j show "\<exists>p. process_page E pdfDoc quality scale j = Inr p"
      by (cases "process_page E pdfDoc quality scale j") (auto simp add: failing_def)
  qed
  from ki i(2) have kn: "k \<le> numPages pdfDoc" by simp
  from pass_aborts_at_first_failure [OF doc k1 kn before err] k1 ki err before
  show ?thesis by blast
qed

lemma faulty_page2: "process_page faulty_env faulty_doc 0.5 0.5 2 = Inl (Error ''out of memory'')"
  by code_simp

lemma faulty_pages_half: "compressPdf_pages faulty_env faulty_doc 0.5 0.5 1 [] =
    ([rendering_event 1 3, rendering_event 2 3],
     Inl (Error ''Failed to process page 2: out of memory''))"
  by code_simp

lemma faulty_getDocument: "d \<noteq> [] \<Longrightarrow> getDocument faulty_env d = Inr faulty_doc"
  by (simp add: faulty_env_def)

lemma demo_pdf_not_empty: "demo_pdf \<noteq> []"
  by (simp add: demo_pdf_def)

theorem page_failure_aborts_witness:
  "getDocument faulty_env (bytes_at (saved demo_pdf) 0) = Inr faulty_doc \<and>
   process_page faulty_env faulty_doc 0.5 0.5 2 = Inl (Error ''out of memory'') \<and>
   (\<exists>k err. 1 \<le> k \<and> k \<le> 2 \<and>
      process_page faulty_env faulty_doc 0.5 0.5 k = Inl err \<and>
      compressPdf faulty_env (saved demo_pdf) 0 0.5 0.5 =
        (map (\<lambda>j. rendering_event j (numPages faulty_doc)) [1..<k + 1],
         Inl (Error (''Failed to process page '' @ show_nat k @ '': '' @
                     message_or err ''Unknown error'')),
         take_buffer (saved demo_pdf) 0)) \<and>
   compressPdf faulty_env (saved demo_pdf) 0 0.5 0.5 =
     ([rendering_event 1 3, rendering_event 2 3],
      Inl (Error ''Failed to process page 2: out of memory''),
      take_buffer (saved demo_pdf) 0)"
proof -
  have doc: "getDocument faulty_env (bytes_at (saved demo_pdf) 0) = Inr faulty_doc"
    by (simp add: bytes_at_saved faulty_getDocument demo_pdf_not_empty)
  have n: "(2::nat) \<le> numPages faulty_doc"
    by (simp add: faulty_doc_def)
  have one: "(1::nat) \<le> 2" by simp
  have pass: "compressPdf faulty_env (saved demo_pdf) 0 0.5 0.5 =
     ([rendering_event 1 3, rendering_event 2 3],
      Inl (Error ''Failed to process page 2: out of memory''),
      take_buffer (saved demo_pdf) 0)"
    by (simp only: compressPdf_def pdfjs_getDocument_def doc prod.case sum.case faulty_pages_half)
  from page_failure_aborts [OF doc one n faulty_page2] doc faulty_page2 pass
  show ?thesis by blast
qed

lemma process_page_Inr:
  assumes "process_page E pdfDoc quality scale i = Inr p"
  shows "\<exists>page imageBytes img.
           getPage pdfDoc i = Inr page \<and>
           renderPageToImage E page scale quality = Inr imageBytes \<and>
           embedJpg E imageBytes = Inr img \<and>
           p = full_page_image (fst (getViewport page 1)) (snd (getViewport page 1)) img"
  using assms
  by (auto simp add: process_page_def full_page_image_def Let_def
      split: sum.splits if_splits)

lemma pages_success:
  assumes "compressPdf_pages E pdfDoc quality scale i newPdf = (evs, Inr out)"
  shows "\<exists>ps. out = newPdf @ ps \<and> length ps = numPages pdfDoc + 1 - i \<and>
              (\<forall>j < length ps. process_page E pdfDoc quality scale (i + j) = Inr (ps ! j))"
  using assms
proof (induction "numPages pdfDoc + 1 - i" arbitrary: i newPdf evs)
  case 0
  then have "\<not> i \<le> numPages pdfDoc" by simp
  with 0 show ?case by (simp add: pages_past_end)
next
  case (Suc d)
  then have le: "i \<le> numPages pdfDoc" by simp
  show ?case
  proof (cases "process_page E pdfDoc quality scale i")
    case (Inl err)
    with le Suc.prems show ?thesis by (simp add: pages_fail)
  next
    case (Inr newPage)
    obtain evs' where rest:
      "compressPdf_pages E pdfDoc quality scale (i + 1) (newPdf @ [newPage]) = (evs', Inr out)"
      using Suc.prems le Inr by (cases "compressPdf_pages E pdfDoc quality scale (i + 1) (newPdf @ [newPage])")
        (simp add: pages_step)
    have "d = numPages pdfDoc + 1 - (i + 1)" using Suc.hyps(2) by simp
    from Suc.hyps(1) [OF this rest] obtain ps where ps:
      "out = (newPdf @ [newPage]) @ ps" "length ps = numPages pdfDoc + 1 - (i + 1)"
      "\<forall>j < length ps. process_page E pdfDoc quality scale (i + 1 + j) = Inr (ps ! j)"
      by blast
    have "\<forall>j < length (newPage # ps). process_page E pdfDoc quality scale (i + j) = Inr ((newPage # ps) ! j)"
    proof (intro allI impI)
      fix j assume j: "j < length (newPage # ps)"
      show "process_page E pdfDoc quality scale (i + j) = Inr ((newPage # ps) ! j)"
      proof (cases j)
        case 0
        with Inr show ?thesis by simp
      next
        case (Suc j')
        with j ps(3) show ?thesis by simp
      qed
    qed
    moreover have "out = newPdf @ (newPage # ps)" using ps(1) by simp
    moreover have "length (newPage # ps) = numPages pdfDoc + 1 - i" using ps(2) le by simp
    ultimately show ?thesis by blast
  qed
qed

lemma compressPdf_Inr:
  assumes "compressPdf E h pdfData quality scale = (evs, Inr out, h')"
  shows "\<exists>pdfDoc newPdf.
           getDocument E (bytes_at h pdfData) = Inr pdfDoc \<and> bytes_at h' out = save E newPdf \<and>
           length newPdf = numPages pdfDoc \<and>
           (\<forall>i < numPages pdfDoc. process_page E pdfDoc quality scale (i + 1) = Inr (newPdf ! i))"
proof -
  from assms obtain pdfDoc where doc: "getDocument E (bytes_at h pdfData) = Inr pdfDoc"
    by (auto simp add: compressPdf_def pdfjs_getDocument_def split: sum.splits)
  from assms doc obtain evs' newPdf where
    pages: "compressPdf_pages E pdfDoc quality scale 1 [] = (evs', Inr newPdf)"
    and out: "(out, h') = new_array (take_buffer h pdfData) (save E newPdf)"
    by (auto simp add: compressPdf_def pdfjs_getDocument_def split: sum.splits prod.splits)
  from out have saved_bytes: "bytes_at h' out = save E newPdf"
    by (simp add: new_array_def bytes_at_def)
  from pages_success [OF pages] have
    "length newPdf = numPages pdfDoc"
    "\<forall>j < length newPdf. process_page E pdfDoc quality scale (1 + j) = Inr (newPdf ! j)"
    by auto
  with doc saved_bytes show ?thesis by (auto simp add: add.commute)
qed

lemma convertImageToPdf_Inr:
  assumes "convertImageToPdf E I imageFile fileName = Inr f"
  shows "\<exists>imageBlob w h img.
           loadImage I imageBlob = Some (w, h) \<and>
           (embedPng E (blob_data imageBlob) = Inr img \<or> embedJpg E (blob_data imageBlob) = Inr img) \<and>
           file_data f = save E [full_page_image (real w) (real h) img]"
  using assms
  by (auto simp add: convertImageToPdf_def full_page_image_def addPage_def Let_def
      split: sum.splits option.splits if_splits image_source.splits) blast+

text \<open>
  Claim C6, as amended. A pass that returns gives the array of a document with exactly one page per
  page of the input, in the same order; page \<open>i\<close> has the width and height of the
  viewport of input page \<open>i\<close> at scale 1 times 0.75, whatever the scale of the
  rendering, and holds the image rendered from that page, drawn at 0, 0 with the page's
  width and height. \<^verbatim>\<open>convertImageToPdf\<close> writes one page of the loaded image's pixel
  width and height times 0.75, filled by the image.
\<close>

theorem rebuilt_pages:
  "(compressPdf E h pdfData quality scale = (evs, Inr out, h') \<longrightarrow>
      (\<exists>pdfDoc newPdf.
         getDocument E (bytes_at h pdfData) = Inr pdfDoc \<and> bytes_at h' out = save E newPdf \<and>
         length newPdf = numPages pdfDoc \<and>
         (\<forall>i < numPages pdfDoc. \<exists>page imageBytes img.
            getPage pdfDoc (i + 1) = Inr page \<and>
            renderPageToImage E page scale quality = Inr imageBytes \<and>
            embedJpg E imageBytes = Inr img \<and>
            newPdf ! i = full_page_image (fst (getViewport page 1)) (snd (getViewport page 1)) img))) \<and>
   (convertImageToPdf E I imageFile fileName = Inr f \<longrightarrow>
      (\<exists>imageBlob w h img.
         loadImage I imageBlob = Some (w, h) \<and>
         (embedPng E (blob_data imageBlob) = Inr img \<or> embedJpg E (blob_data imageBlob) = Inr img) \<and>
         file_data f = save E [full_page_image (real w) (real h) img]))"
proof (intro conjI impI)
  assume "compressPdf E h pdfData quality scale = (evs, Inr out, h')"
  from compressPdf_Inr [OF this] obtain pdfDoc newPdf where
    a: "getDocument E (bytes_at h pdfData) = Inr pdfDoc" "bytes_at h' out = save E newPdf"
       "length newPdf = numPages pdfDoc"
    and b: "\<forall>i < numPages pdfDoc. process_page E pdfDoc quality scale (i + 1) = Inr (newPdf ! i)"
    by blast
  have "\<forall>i < numPages pdfDoc. \<exists>page imageBytes img.
            getPage pdfDoc (i + 1) = Inr page \<and>
            renderPageToImage E page scale quality = Inr imageBytes \<and>
            embedJpg E imageBytes = Inr img \<and>
            newPdf ! i = full_page_image (fst (getViewport page 1)) (snd (getViewport page 1)) img"
    using b process_page_Inr by blast
  with a show "\<exists>pdfDoc newPdf.
         getDocument E (bytes_at h pdfData) = Inr pdfDoc \<and> bytes_at h' out = save E newPdf \<and>
         length newPdf = numPages pdfDoc \<and>
         (\<forall>i < numPages pdfDoc. \<exists>page imageBytes img.
            getPage pdfDoc (i + 1) = Inr page \<and>
            renderPageToImage E page scale quality = Inr imageBytes \<and>
            embedJpg E imageBytes = Inr img \<and>
            newPdf ! i = full_page_image (fst (getViewport page 1)) (snd (getViewport page 1)) img)"
    by blast
next
  assume "convertImageToPdf E I imageFile fileName = Inr f"
  then show "\<exists>imageBlob w h img.
         loadImage I imageBlob = Some (w, h) \<and>
         (embedPng E (blob_data imageBlob) = Inr img \<or> embedJpg E (blob_data imageBlob) = Inr img) \<and>
         file_data f = save E [full_page_image (real w) (real h) img]"
    by (rule convertImageToPdf_Inr)
qed

lemma fresh_take_buffer: "fresh (take_buffer h r) = fresh h"
  by (simp add: take_buffer_def)

lemma compressPdf_demo:
  "compressPdf demo_env h r q s =
     (if bytes_at h r = [] then ([], Inl empty_pdf_error, take_buffer h r)
      else ([rendering_event 1 1, building_event 1], Inr (fresh h),
            snd (new_array (take_buffer h r) (if q < 0.2 then [65, 65, 65, 65] else [65, 65]))))"
  by (simp add: compressPdf_def pdfjs_getDocument_def demo_env_def demo_doc_def
      compressPdf_pages.simps process_page_def renderPageToImage_def createCanvas_def page0_def
      new_array_def fresh_take_buffer Let_def)

lemma demo_pass: "compressPdf demo_env (saved demo_pdf) 0 0.5 0.5 =
    ([rendering_event 1 1, building_event 1], Inr 1,
     snd (new_array (take_buffer (saved demo_pdf) 0) [65, 65]))"
  by (simp add: compressPdf_demo bytes_at_saved demo_pdf_not_empty)
     (simp add: saved_def new_array_def no_arrays_def)

lemma demo_output: "bytes_at (snd (new_array (take_buffer (saved demo_pdf) 0) [65, 65])) 1 = [65, 65]"
  by (simp add: new_array_def bytes_at_def fresh_take_buffer saved_def no_arrays_def)

lemma demo_convert: "convertImageToPdf demo_env demo_image_env demo_image ''photo.JPG'' =
    Inr \<lparr>file_name = ''photo.pdf'', file_type = ''application/pdf'', file_data = [255, 216]\<rparr>"
  by code_simp

theorem rebuilt_pages_witness:
  "compressPdf demo_env (saved demo_pdf) 0 0.5 0.5 =
     ([rendering_event 1 1, building_event 1], Inr 1,
      snd (new_array (take_buffer (saved demo_pdf) 0) [65, 65])) \<and>
   (\<exists>pdfDoc newPdf.
      getDocument demo_env (bytes_at (saved demo_pdf) 0) = Inr pdfDoc \<and>
      [65, 65] = save demo_env newPdf \<and>
      length newPdf = numPages pdfDoc \<and>
      (\<forall>i < numPages pdfDoc. \<exists>page imageBytes img.
         getPage pdfDoc (i + 1) = Inr page \<and>
         renderPageToImage demo_env page 0.5 0.5 = Inr imageBytes \<and>
         embedJpg demo_env imageBytes = Inr img \<and>
         newPdf ! i = full_page_image (fst (getViewport page 1)) (snd (getViewport page 1)) img)) \<and>
   (\<exists>imageBlob w h img.
      loadImage demo_image_env imageBlob = Some (w, h) \<and>
      (embedPng demo_env (blob_data imageBlob) = Inr img \<or>
       embedJpg demo_env (blob_data imageBlob) = Inr img) \<and>
      [255, 216] = save demo_env [full_page_image (real w) (real h) img])"
  using rebuilt_pages [where E = demo_env and h = "saved demo_pdf" and pdfData = 0
      and quality = "0.5" and scale = "0.5"
      and evs = "[rendering_event 1 1, building_event 1]" and out = 1
      and h' = "snd (new_array (take_buffer (saved demo_pdf) 0) [65, 65])"
      and I = demo_image_env and imageFile = demo_image and fileName = "''photo.JPG''"
      and f = "\<lparr>file_name = ''photo.pdf'', file_type = ''application/pdf'', file_data = [255, 216]\<rparr>"]
    demo_pass demo_convert demo_output
  by simp

lemma demo_page: "process_page demo_env demo_doc 0.5 0.5 1 =
    Inr (full_page_image 612 792 (Jpg [65, 65]))"
  by code_simp

text \<open>
  Claim C6 as stated fails in \<^verbatim>\<open>compressPdf\<close>: a page of 612 by 792 rendered at scale 0.5
  gives an image of 306 by 396 pixels, and the rebuilt page is 459 by 594, not 229.5 by
  297.
\<close>

theorem rebuilt_page_size_counterexample:
  "getPage demo_doc 1 = Inr page0 \<and>
   process_page demo_env demo_doc 0.5 0.5 1 = Inr (full_page_image 612 792 (Jpg [65, 65])) \<and>
   createCanvas (getViewport page0 0.5) = \<lparr>cv_width = 306, cv_height = 396, cv_drawn = None\<rparr> \<and>
   pg_width (full_page_image 612 792 (Jpg [65, 65])) = 459 \<and>
   \<not> page_sized_by_image page0 0.5 (full_page_image 612 792 (Jpg [65, 65]))"
proof -
  have canvas: "createCanvas (getViewport page0 0.5) = \<lparr>cv_width = 306, cv_height = 396, cv_drawn = None\<rparr>"
    by (simp add: createCanvas_def page0_def)
  have "\<not> page_sized_by_image page0 0.5 (full_page_image 612 792 (Jpg [65, 65]))"
    unfolding page_sized_by_image_def canvas by (simp add: full_page_image_def)
  with canvas demo_page show ?thesis
    by (simp add: demo_doc_def full_page_image_def)
qed

section \<open>The array that pdf.js has taken\<close>

lemma bytes_at_take_buffer:
  "bytes_at (take_buffer h r) r' =
     (if r' = r \<and> whole_buffer (arrays h r) then [] else bytes_at h r')"
  by (simp add: take_buffer_def bytes_at_def)

lemma whole_buffer_saved: "whole_buffer (arrays (saved b) 0)"
  by (simp add: saved_def new_array_def no_arrays_def)

lemma fresh_saved: "fresh (saved b) = 1"
  by (simp add: saved_def new_array_def no_arrays_def)

text \<open>
  After any call of \<^verbatim>\<open>compressPdf\<close> on an array that spans its buffer, whether the call
  returns or throws, the array is empty.
\<close>

lemma compressPdf_empties_whole_array:
  assumes "whole_buffer (arrays h pdfData)" and "pdfData < fresh h"
    and "compressPdf E h pdfData quality scale = (evs, r, h')"
  shows "bytes_at h' pdfData = []"
proof -
  have taken: "bytes_at (take_buffer h pdfData) pdfData = []"
    using assms(1) by (simp add: bytes_at_take_buffer)
  have "h' = take_buffer h pdfData \<or>
        (\<exists>b. h' = snd (new_array (take_buffer h pdfData) b))"
    using assms(3)
    by (auto simp add: compressPdf_def pdfjs_getDocument_def split: sum.splits prod.splits)
       (metis snd_conv)
  then show ?thesis
  proof
    assume "h' = take_buffer h pdfData"
    with taken show ?thesis by simp
  next
    assume "\<exists>b. h' = snd (new_array (take_buffer h pdfData) b)"
    then obtain b where "h' = snd (new_array (take_buffer h pdfData) b)" by blast
    with taken assms(2) show ?thesis
      by (simp add: new_array_def bytes_at_def fresh_take_buffer)
  qed
qed

lemma large_pdf_length: "length large_pdf = 11534336"
  by (simp add: large_pdf_def)

lemma large_pdf_not_empty: "large_pdf \<noteq> []"
  by (simp add: large_pdf_def)

lemma compressPdf_stubborn:
  "compressPdf stubborn_env h r q s =
     (if bytes_at h r = [] then ([], Inl empty_pdf_error, take_buffer h r)
      else ([rendering_event 1 1, building_event 1], Inr (fresh h),
            snd (new_array (take_buffer h r) (replicate 11010048 0))))"
  by (simp add: compressPdf_def pdfjs_getDocument_def stubborn_env_def demo_env_def demo_doc_def
      compressPdf_pages.simps process_page_def renderPageToImage_def createCanvas_def page0_def
      new_array_def fresh_take_buffer Let_def)

text \<open>
  The search on an array of 11 MB that \<^verbatim>\<open>save()\<close> has returned, with a target of 10 MB
  and a compressor whose output is 10.5 MB: the first attempt is over the budget, and the
  second finds the array empty.
\<close>

lemma stubborn_run:
  "compressToTargetSize stubborn_env (saved large_pdf) 0 10 =
     \<lparr>calls = [(large_pdf, 0.7, 0.9), ([], 0.49, 0.765)],
      events = [attach_size (take_buffer (saved large_pdf) 0) 0 (rendering_event 1 1),
                attach_size (take_buffer (saved large_pdf) 0) 0 (building_event 1),
                compressing_event 1 10.5],
      outcome = Inl empty_pdf_error,
      heap_after = take_buffer (snd (new_array (take_buffer (saved large_pdf) 0)
                                       (replicate 11010048 0))) 0\<rparr>"
proof -
  define h0 where "h0 = saved large_pdf"
  define h1 where "h1 = snd (new_array (take_buffer h0 0) (replicate 11010048 0))"
  have b0: "bytes_at h0 0 = large_pdf"
    by (simp add: h0_def bytes_at_saved)
  have f0: "fresh h0 = 1"
    by (simp add: h0_def fresh_saved)
  have first: "compressPdf stubborn_env h0 0 0.7 0.9 =
      ([rendering_event 1 1, building_event 1], Inr 1, h1)"
    by (simp add: compressPdf_stubborn b0 f0 large_pdf_not_empty h1_def)
  have out1: "bytes_at h1 1 = replicate 11010048 0"
    by (simp add: h1_def new_array_def bytes_at_def fresh_take_buffer f0)
  have w0: "whole_buffer (arrays h0 0)"
    by (simp add: h0_def whole_buffer_saved)
  have in1: "bytes_at h1 0 = []"
    using w0 by (simp add: h1_def new_array_def bytes_at_def fresh_take_buffer f0 take_buffer_def)
  have second: "compressPdf stubborn_env h1 0 (max (0.7 * 0.7) 0.1) (max (0.9 * 0.85) 0.3) =
      ([], Inl empty_pdf_error, take_buffer h1 0)"
    by (simp add: compressPdf_stubborn in1)
  have over: "\<not> real (length (bytes_at h1 1)) \<le> 10 * 1024 * 1024"
    unfolding out1 by simp
  have a0: "(0::nat) < maxAttempts" and a1: "0 + 1 < maxAttempts"
    by (simp_all add: maxAttempts_def)
  have loop2: "compressToTargetSize_loop stubborn_env h1 0 (10 * 1024 * 1024) (0 + 1)
                 (max (0.7 * 0.7) 0.1) (max (0.9 * 0.85) 0.3) 1 =
     \<lparr>calls = [(bytes_at h1 0, max (0.7 * 0.7) 0.1, max (0.9 * 0.85) 0.3)],
      events = map (attach_size (take_buffer h1 0) 1) [],
      outcome = Inl empty_pdf_error, heap_after = take_buffer h1 0\<rparr>"
    by (rule loop_throw [OF a1 second])
  have loop1: "compressToTargetSize_loop stubborn_env h0 0 (10 * 1024 * 1024) 0 0.7 0.9 0 =
     then_run (bytes_at h0 0, 0.7, 0.9)
       (map (attach_size (take_buffer h0 0) 0) [rendering_event 1 1, building_event 1]
          @ [compressing_event (0 + 1) (real (length (bytes_at h1 1)) / MB)])
       (compressToTargetSize_loop stubborn_env h1 0 (10 * 1024 * 1024) (0 + 1)
          (max (0.7 * 0.7) 0.1) (max (0.9 * 0.85) 0.3) 1)"
    by (rule loop_retry [OF a0 first over])
  have start: "compressToTargetSize stubborn_env h0 0 10 =
      compressToTargetSize_loop stubborn_env h0 0 (10 * 1024 * 1024) 0 0.7 0.9 0"
    by (simp add: compressToTargetSize_def b0 large_pdf_length initial_settings_def)
  show ?thesis
    unfolding h0_def [symmetric] h1_def [symmetric] start loop1 loop2 out1 in1 b0
    by (simp add: then_run_def MB_def)
qed

text \<open>
  Claim C10 fails on the code. The second attempt is handed the same array as the first,
  but pdf.js has taken its buffer: the call is on 0 bytes, not on the original bytes.
\<close>

theorem second_attempt_on_emptied_array:
  "bytes_at (saved large_pdf) 0 = large_pdf \<and>
   length large_pdf = 11534336 \<and>
   calls (compressToTargetSize stubborn_env (saved large_pdf) 0 10)
     = [(large_pdf, 0.7, 0.9), ([], 0.49, 0.765)]"
  by (simp add: stubborn_run bytes_at_saved large_pdf_length)


section \<open>Properties of the application state\<close>

lemma show_nat_2: "show_nat 2 = ''2''"
  by code_simp

lemma compressPdf_faulty:
  assumes "bytes_at h r \<noteq> []"
  shows "compressPdf faulty_env h r q s =
     ([rendering_event 1 3, rendering_event 2 3],
      Inl (Error ''Failed to process page 2: out of memory''), take_buffer h r)"
proof -
  have doc: "getDocument faulty_env (bytes_at h r) = Inr faulty_doc"
    using assms by (rule faulty_getDocument)
  have p1: "\<exists>p. process_page faulty_env faulty_doc q s 1 = Inr p"
    by (simp add: process_page_def faulty_doc_def page0_def renderPageToImage_def
        faulty_env_def demo_env_def createCanvas_def Let_def)
  have p2: "process_page faulty_env faulty_doc q s 2 = Inl (Error ''out of memory'')"
    by (simp add: process_page_def faulty_doc_def faulty_page_def renderPageToImage_def
        faulty_env_def demo_env_def createCanvas_def Let_def)
  have before: "\<forall>j. 1 \<le> j \<and> j < (2::nat) \<longrightarrow> (\<exists>p. process_page faulty_env faulty_doc q s j = Inr p)"
  proof (intro allI impI)
    fix j :: nat assume "1 \<le> j \<and> j < 2"
    then have "j = 1" by simp
    with p1 show "\<exists>p. process_page faulty_env faulty_doc q s j = Inr p" by simp
  qed
  have n: "(2::nat) \<le> numPages faulty_doc" by (simp add: faulty_doc_def)
  have upt: "[Suc 0..<3] = [Suc 0, 2]" by code_simp
  from pass_aborts_at_first_failure [OF doc _ n before p2]
  show ?thesis by (simp add: upt show_nat_2 faulty_doc_def)
qed

lemma preset_failure:
  "handleCompress faulty_env demo_parseFloat preset_app (saved large_pdf) =
     (\<lparr>appState = AppSuccess, mergedPdfData = Some 0,
       compressProgress = Some (rendering_event 2 3),
       targetSizeMB_text = ''10'', compressionPreset = medium, useTargetSize = False,
       alerts = [''Failed to compress PDF:'' @ newline @ newline @
                 ''Failed to process page 2: out of memory'']\<rparr>,
      take_buffer (saved large_pdf) 0)"
  by (simp add: handleCompress_def run_compression_def preset_app_def compressPdf_faulty
      bytes_at_saved large_pdf_not_empty)

lemma target_failure:
  "handleCompress faulty_env demo_parseFloat target_app (saved large_pdf) =
     (\<lparr>appState = AppSuccess, mergedPdfData = Some 0,
       compressProgress =
         Some (attach_size (take_buffer (saved large_pdf) 0) 0 (rendering_event 2 3)),
       targetSizeMB_text = ''10'', compressionPreset = medium, useTargetSize = True,
       alerts = [''Failed to compress PDF:'' @ newline @ newline @
                 ''Failed to process page 2: out of memory'']\<rparr>,
      take_buffer (saved large_pdf) 0)"
  by (simp add: handleCompress_def run_compression_def target_app_def preset_app_def
      demo_parseFloat_def compressToTargetSize_def initial_settings_def
      compressToTargetSize_loop.simps [of _ _ _ _ 0] maxAttempts_def compressPdf_faulty
      bytes_at_saved large_pdf_not_empty large_pdf_length)

text \<open>
  Claim C9 fails on the code. After a merge the stored array is the one that \<^verbatim>\<open>save()\<close>
  returned, here of 11 MB. When the compression throws at the second page, in preset
  mode and in target-size mode alike, the application is back in the success state, the
  message has been shown and the state still holds the same array, but pdf.js has taken
  its buffer: the stored document is now 0 bytes.
\<close>

theorem failed_compression_empties_stored_array:
  "stored_bytes preset_app (saved large_pdf) = Some large_pdf \<and>
   appState (fst (handleCompress faulty_env demo_parseFloat preset_app (saved large_pdf)))
     = AppSuccess \<and>
   alerts (fst (handleCompress faulty_env demo_parseFloat preset_app (saved large_pdf)))
     = [''Failed to compress PDF:'' @ newline @ newline @
        ''Failed to process page 2: out of memory''] \<and>
   mergedPdfData (fst (handleCompress faulty_env demo_parseFloat preset_app (saved large_pdf)))
     = Some 0 \<and>
   stored_bytes (fst (handleCompress faulty_env demo_parseFloat preset_app (saved large_pdf)))
                (snd (handleCompress faulty_env demo_parseFloat preset_app (saved large_pdf)))
     = Some [] \<and>
   stored_bytes target_app (saved large_pdf) = Some large_pdf \<and>
   appState (fst (handleCompress faulty_env demo_parseFloat target_app (saved large_pdf)))
     = AppSuccess \<and>
   mergedPdfData (fst (handleCompress faulty_env demo_parseFloat target_app (saved large_pdf)))
     = Some 0 \<and>
   stored_bytes (fst (handleCompress faulty_env demo_parseFloat target_app (saved large_pdf)))
                (snd (handleCompress faulty_env demo_parseFloat target_app (saved large_pdf)))
     = Some []"
proof -
  have before: "stored_bytes preset_app (saved large_pdf) = Some large_pdf"
    "stored_bytes target_app (saved large_pdf) = Some large_pdf"
    by (simp_all add: stored_bytes_def preset_app_def target_app_def bytes_at_saved)
  have taken: "bytes_at (take_buffer (saved large_pdf) 0) 0 = []"
    by (simp add: bytes_at_take_buffer whole_buffer_saved)
  show ?thesis
    unfolding preset_failure target_failure
    by (simp add: before) (simp add: stored_bytes_def taken)
qed

section \<open>Properties of the merge\<close>

lemma foldl_addPage: "foldl addPage doc pages = doc @ pages"
  by (induction pages arbitrary: doc) (simp_all add: addPage_def)

lemma copyPages_all: "copyPages pdf (getPageIndices pdf) = pdf"
  by (simp add: copyPages_def getPageIndices_def map_nth)

lemma merge_files_all_load:
  assumes "length docs = length files"
    and "\<forall>j < length files. load E (file_data (files ! j)) = Inr (docs ! j)"
  shows "mergePdfs_files E files i mergedPdf =
           (map (\<lambda>j. (j + 1, length files)) [i..<length files],
            Inr (mergedPdf @ concat (drop i docs)))"
  using assms
proof (induction "length files - i" arbitrary: i mergedPdf)
  case 0
  then show ?case by (simp add: mergePdfs_files.simps [of E files i])
next
  case (Suc d)
  then have lt: "i < length files" by simp
  with Suc.prems have ld: "load E (file_data (files ! i)) = Inr (docs ! i)" by blast
  have "d = length files - (i + 1)" using Suc.hyps(2) by simp
  from Suc.hyps(1) [OF this Suc.prems] have rest:
    "mergePdfs_files E files (i + 1) (mergedPdf @ docs ! i) =
       (map (\<lambda>j. (j + 1, length files)) [i + 1..<length files],
        Inr ((mergedPdf @ docs ! i) @ concat (drop (i + 1) docs)))" .
  have upt: "[i..<length files] = i # [i + 1..<length files]"
    using lt by (simp add: upt_conv_Cons)
  have dr: "drop i docs = docs ! i # drop (i + 1) docs"
    using lt Suc.prems(1) by (simp add: Cons_nth_drop_Suc)
  show ?case
    using lt ld rest
    by (simp add: mergePdfs_files.simps [of E files i] Let_def copyPages_all foldl_addPage upt dr)
qed

text \<open>
  Claim C5. When every file loads, as the documents \<open>docs\<close>, \<^verbatim>\<open>mergePdfs\<close> returns the
  saved document whose pages are those of the first file, then those of the second, and
  so on, each in its own order; their number is the sum of the page counts.
\<close>

theorem merge_concatenates_pages:
  assumes "map (\<lambda>f. load E (file_data f)) files = map Inr docs"
  shows "mergePdfs E files =
           (map (\<lambda>j. (j + 1, length files)) [0..<length files], Inr (save E (concat docs))) \<and>
         length (concat docs) = sum_list (map length docs)"
proof -
  from assms have len: "length docs = length files"
    by (metis length_map)
  have "\<forall>j < length files. load E (file_data (files ! j)) = Inr (docs ! j)"
  proof (intro allI impI)
    fix j assume j: "j < length files"
    then have "load E (file_data (files ! j)) = map (\<lambda>f. load E (file_data f)) files ! j"
      by simp
    also have "\<dots> = map Inr docs ! j"
      by (simp only: assms)
    also have "\<dots> = Inr (docs ! j)"
      using j len by simp
    finally show "load E (file_data (files ! j)) = Inr (docs ! j)" .
  qed
  from merge_files_all_load [OF len this, of 0 "[]"]
  show ?thesis by (simp add: mergePdfs_def length_concat)
qed

theorem merge_concatenates_pages_witness:
  "mergePdfs demo_env demo_files = ([(1, 2), (2, 2)], Inr [1, 2, 3]) \<and>
   length (concat [[byte_page 1, byte_page 2], [byte_page 3]]) = 3 \<and>
   save demo_env [byte_page 1, byte_page 2, byte_page 3] = [1, 2, 3]"
proof -
  have loads: "map (\<lambda>f. load demo_env (file_data f)) demo_files
                 = map Inr [[byte_page 1, byte_page 2], [byte_page 3]]"
    by (simp add: demo_env_def demo_files_def)
  have saved: "save demo_env [byte_page 1, byte_page 2, byte_page 3] = [1, 2, 3]"
    by (simp add: demo_env_def byte_page_def)
  have upt: "[0..<2] = [0, Suc 0]" by code_simp
  from merge_concatenates_pages [OF loads] saved show ?thesis
    by (simp add: demo_files_def upt)
qed

section \<open>Properties of the command line\<close>

lemma positional_drop:
  assumes "i < length args"
  shows "positional (drop i args) =
           (if args ! i = ''-o'' \<or> args ! i = ''--output'' then positional (drop (i + 2) args)
            else args ! i # positional (drop (i + 1) args))"
proof -
  have "drop i args = args ! i # drop (i + 1) args"
    using assms by (simp add: Cons_nth_drop_Suc)
  then show ?thesis by simp
qed

lemma parse_args_Inr:
  "parse_args args i inputPaths outputPath = Inr (found, out) \<Longrightarrow>
   found = inputPaths @ valid_inputs (drop i args) \<and> \<not> unrecognized (drop i args)"
proof (induction args i inputPaths outputPath rule: parse_args.induct)
  case (1 args i inputPaths outputPath)
  show ?case
  proof (cases "i < length args")
    case False
    with "1.prems" show ?thesis
      by (simp add: parse_args.simps [of args i] valid_inputs_def unrecognized_def)
  next
    case True
    note pos = positional_drop [OF True]
    show ?thesis
    proof (cases "args ! i = ''-o'' \<or> args ! i = ''--output''")
      case flag: True
      from "1.prems" True flag obtain v where v: "index_opt args (i + 1) = Some v" "v \<noteq> []"
        and rest: "parse_args args (i + 2) inputPaths (Some v) = Inr (found, out)"
        by (auto simp add: parse_args.simps [of args i] Let_def split: option.splits if_splits)
      from "1.IH"(1) [OF True refl flag v(1) v(2) rest]
      show ?thesis using flag by (simp add: valid_inputs_def unrecognized_def pos)
    next
      case noflag: False
      show ?thesis
      proof (cases "endsWith (args ! i) ''.pdf''")
        case pdf: True
        from "1.prems" True noflag pdf
        have rest: "parse_args args (i + 1) (inputPaths @ [args ! i]) outputPath = Inr (found, out)"
          by (simp add: parse_args.simps [of args i] Let_def)
        from "1.IH"(2) [OF True refl noflag pdf rest]
        show ?thesis using noflag pdf by (simp add: valid_inputs_def unrecognized_def pos)
      next
        case False
        with "1.prems" True noflag show ?thesis
          by (simp add: parse_args.simps [of args i] Let_def)
      qed
    qed
  qed
qed

lemma main_no_help:
  assumes "args \<noteq> []" and "''-h'' \<notin> set args" and "''--help'' \<notin> set args"
  shows "main N args =
     (case parse_args args 0 [] None of
           Inl msg \<Rightarrow> \<lparr>exit_status = 1, stdout = [], stderr = [msg]\<rparr>
         | Inr (inputPaths, outputPath) \<Rightarrow>
             if length inputPaths < 2
             then \<lparr>exit_status = 1, stdout = [],
                   stderr = [cross_mark @ '' Error: Please provide at least 2 PDF files to merge'']\<rparr>
             else
               (case first_missing N inputPaths of
                  Some inputPath \<Rightarrow>
                    \<lparr>exit_status = 1, stdout = [],
                     stderr = [cross_mark @ '' Error: File not found: '' @ inputPath]\<rparr>
                | None \<Rightarrow>
                    (let banner = newline @ link_symbol @ '' Merging '' @ show_nat (length inputPaths)
                                    @ '' PDF files...'' @ newline
                     in case cli_mergePdfs N inputPaths outputPath of
                          (out, Inr resultPath) \<Rightarrow>
                            \<lparr>exit_status = 0,
                             stdout = banner # out @
                               [newline @ check_mark @ '' Successfully merged PDFs!'',
                                file_folder @ '' Output: '' @ path_resolve N resultPath],
                             stderr = []\<rparr>
                        | (out, Inl err) \<Rightarrow>
                            \<lparr>exit_status = 1, stdout = banner # out,
                             stderr = [newline @ cross_mark @ '' Error merging PDFs: ''
                                         @ message_or_text err]\<rparr>)))"
  using assms by (simp add: main_def)

lemma main_rejects:
  assumes "args \<noteq> []" and "''-h'' \<notin> set args" and "''--help'' \<notin> set args"
    and "unrecognized args \<or> length (valid_inputs args) < 2"
  shows "exit_status (main N args) = 1 \<and> stderr (main N args) \<noteq> []"
proof (cases "parse_args args 0 [] None")
  case (Inl msg)
  then show ?thesis by (simp add: main_no_help [OF assms(1-3)])
next
  case (Inr r)
  obtain found out where r: "r = (found, out)" by (cases r)
  from parse_args_Inr [OF Inr [unfolded r]] assms(4)
  have "length found < 2" by simp
  with Inr r show ?thesis by (simp add: main_no_help [OF assms(1-3)])
qed

lemma main_succeeds:
  assumes "''-h'' \<notin> set args" and "''--help'' \<notin> set args"
    and "parse_args args 0 [] None = Inr (inputPaths, outputPath)"
    and "2 \<le> length inputPaths"
    and "first_missing N inputPaths = None"
    and "cli_mergePdfs N inputPaths outputPath = (out, Inr resultPath)"
  shows "exit_status (main N args) = 0 \<and> stderr (main N args) = [] \<and>
         last (stdout (main N args)) = file_folder @ '' Output: '' @ path_resolve N resultPath"
proof -
  have "args \<noteq> []"
  proof
    assume "args = []"
    with assms(3) have "inputPaths = []" by (simp add: parse_args.simps [of "[]"])
    with assms(4) show False by simp
  qed
  from main_no_help [OF this assms(1,2)] assms(3-6) show ?thesis
    by (simp add: Let_def)
qed

text \<open>
  Claim C8, as amended. With \<^verbatim>\<open>-h\<close> or \<^verbatim>\<open>--help\<close> among the arguments the program
  prints the usage and exits with status 0. With no argument at all it prints the usage
  on standard output and exits with status 1, with nothing on standard error. With
  arguments and no help flag, an argument that is neither \<^verbatim>\<open>-o\<close>/\<^verbatim>\<open>--output\<close>, nor the
  value after one, nor ends in \<^verbatim>\<open>.pdf\<close>, or fewer than two input paths, give status 1
  and a message on standard error. When the arguments parse, every input exists and the
  merge returns, the status is 0 and the last line printed is the resolved output path.
\<close>

theorem cli_exit_status:
  "(args \<noteq> [] \<and> (''-h'' \<in> set args \<or> ''--help'' \<in> set args) \<longrightarrow>
      main N args = \<lparr>exit_status = 0, stdout = [usage_text], stderr = []\<rparr>) \<and>
   (args = [] \<longrightarrow>
      main N args = \<lparr>exit_status = 1, stdout = [usage_text], stderr = []\<rparr>) \<and>
   (args \<noteq> [] \<and> ''-h'' \<notin> set args \<and> ''--help'' \<notin> set args \<and>
    (unrecognized args \<or> length (valid_inputs args) < 2) \<longrightarrow>
      exit_status (main N args) = 1 \<and> stderr (main N args) \<noteq> []) \<and>
   (''-h'' \<notin> set args \<and> ''--help'' \<notin> set args \<and>
    parse_args args 0 [] None = Inr (inputPaths, outputPath) \<and> 2 \<le> length inputPaths \<and>
    first_missing N inputPaths = None \<and>
    cli_mergePdfs N inputPaths outputPath = (out, Inr resultPath) \<longrightarrow>
      exit_status (main N args) = 0 \<and> stderr (main N args) = [] \<and>
      last (stdout (main N args)) = file_folder @ '' Output: '' @ path_resolve N resultPath)"
proof (intro conjI impI)
  assume "args \<noteq> [] \<and> (''-h'' \<in> set args \<or> ''--help'' \<in> set args)"
  then show "main N args = \<lparr>exit_status = 0, stdout = [usage_text], stderr = []\<rparr>"
    by (auto simp add: main_def)
next
  assume "args = []"
  then show "main N args = \<lparr>exit_status = 1, stdout = [usage_text], stderr = []\<rparr>"
    by (simp add: main_def)
next
  assume a: "args \<noteq> [] \<and> ''-h'' \<notin> set args \<and> ''--help'' \<notin> set args \<and>
    (unrecognized args \<or> length (valid_inputs args) < 2)"
  then have "exit_status (main N args) = 1 \<and> stderr (main N args) \<noteq> []"
    by (intro main_rejects) simp_all
  then show "exit_status (main N args) = 1" and "stderr (main N args) \<noteq> []"
    by simp_all
next
  assume a: "''-h'' \<notin> set args \<and> ''--help'' \<notin> set args \<and>
    parse_args args 0 [] None = Inr (inputPaths, outputPath) \<and> 2 \<le> length inputPaths \<and>
    first_missing N inputPaths = None \<and>
    cli_mergePdfs N inputPaths outputPath = (out, Inr resultPath)"
  then have "exit_status (main N args) = 0 \<and> stderr (main N args) = [] \<and>
      last (stdout (main N args)) = file_folder @ '' Output: '' @ path_resolve N resultPath"
    using main_succeeds [where args = args and N = N and inputPaths = inputPaths
        and outputPath = outputPath and out = out and resultPath = resultPath]
    by blast
  then show "exit_status (main N args) = 0" and "stderr (main N args) = []"
    and "last (stdout (main N args)) = file_folder @ '' Output: '' @ path_resolve N resultPath"
    by simp_all
qed

lemma demo_parse: "parse_args [''a.pdf'', ''b.pdf'', ''-o'', ''out.pdf''] 0 [] None
    = Inr ([''a.pdf'', ''b.pdf''], Some ''out.pdf'')"
  by code_simp

lemma demo_cli_merge: "cli_mergePdfs demo_node [''a.pdf'', ''b.pdf''] (Some ''out.pdf'')
    = ([page_facing_up @ '' Adding: a.pdf'', page_facing_up @ '' Adding: b.pdf''], Inr ''out.pdf'')"
  by code_simp

lemma demo_one_input: "valid_inputs [''a.pdf''] = [''a.pdf''] \<and> \<not> unrecognized [''a.pdf'']"
  by code_simp

lemma demo_unrecognized: "unrecognized [''a.pdf'', ''b.pdf'', ''notes.txt'']"
  by code_simp

theorem cli_exit_status_witness:
  "main demo_node [''-h'', ''notes.txt''] = \<lparr>exit_status = 0, stdout = [usage_text], stderr = []\<rparr> \<and>
   main demo_node [] = \<lparr>exit_status = 1, stdout = [usage_text], stderr = []\<rparr> \<and>
   length (valid_inputs [''a.pdf'']) < 2 \<and>
   exit_status (main demo_node [''a.pdf'']) = 1 \<and> stderr (main demo_node [''a.pdf'']) \<noteq> [] \<and>
   unrecognized [''a.pdf'', ''b.pdf'', ''notes.txt''] \<and>
   exit_status (main demo_node [''a.pdf'', ''b.pdf'', ''notes.txt'']) = 1 \<and>
   stderr (main demo_node [''a.pdf'', ''b.pdf'', ''notes.txt'']) \<noteq> [] \<and>
   exit_status (main demo_node [''a.pdf'', ''b.pdf'', ''-o'', ''out.pdf'']) = 0 \<and>
   last (stdout (main demo_node [''a.pdf'', ''b.pdf'', ''-o'', ''out.pdf'']))
     = file_folder @ '' Output: /work/out.pdf''"
proof -
  have missing: "first_missing demo_node [''a.pdf'', ''b.pdf''] = None"
    by (simp add: demo_node_def)
  have resolve: "path_resolve demo_node ''out.pdf'' = ''/work/out.pdf''"
    by (simp add: demo_node_def)
  note w_help = cli_exit_status [where args = "[''-h'', ''notes.txt'']" and N = demo_node]
  note w_none = cli_exit_status [where args = "[]" and N = demo_node]
  note w_one = cli_exit_status [where args = "[''a.pdf'']" and N = demo_node]
  note w_bad = cli_exit_status [where args = "[''a.pdf'', ''b.pdf'', ''notes.txt'']" and N = demo_node]
  note w_good = cli_exit_status [where args = "[''a.pdf'', ''b.pdf'', ''-o'', ''out.pdf'']"
      and N = demo_node and inputPaths = "[''a.pdf'', ''b.pdf'']" and outputPath = "Some ''out.pdf''"
      and out = "[page_facing_up @ '' Adding: a.pdf'', page_facing_up @ '' Adding: b.pdf'']"
      and resultPath = "''out.pdf''"]
  from w_help have 1: "main demo_node [''-h'', ''notes.txt''] = \<lparr>exit_status = 0, stdout = [usage_text], stderr = []\<rparr>"
    by simp
  from w_none have 2: "main demo_node [] = \<lparr>exit_status = 1, stdout = [usage_text], stderr = []\<rparr>"
    by simp
  from w_one demo_one_input have 3: "length (valid_inputs [''a.pdf'']) < 2 \<and>
   exit_status (main demo_node [''a.pdf'']) = 1 \<and> stderr (main demo_node [''a.pdf'']) \<noteq> []"
    by simp
  from w_bad demo_unrecognized have 4: "exit_status (main demo_node [''a.pdf'', ''b.pdf'', ''notes.txt'']) = 1 \<and>
   stderr (main demo_node [''a.pdf'', ''b.pdf'', ''notes.txt'']) \<noteq> []"
    by simp
  from w_good demo_parse demo_cli_merge missing resolve
  have 5: "exit_status (main demo_node [''a.pdf'', ''b.pdf'', ''-o'', ''out.pdf'']) = 0 \<and>
   last (stdout (main demo_node [''a.pdf'', ''b.pdf'', ''-o'', ''out.pdf'']))
     = file_folder @ '' Output: /work/out.pdf''"
    by simp
  from 1 2 3 4 5 demo_unrecognized show ?thesis by blast
qed

text \<open>
  Claim C8 as stated fails for the empty argument list: it yields fewer than two input
  paths and the status is 1, but the usage goes to standard output and nothing is
  written to standard error.
\<close>

theorem cli_no_arguments_counterexample:
  "length (valid_inputs []) < 2 \<and>
   exit_status (main demo_node []) = 1 \<and>
   stdout (main demo_node []) = [usage_text] \<and>
   stderr (main demo_node []) = []"
  by (simp add: main_def valid_inputs_def)

end
